theory Spec2Isabelle
  imports Complex_Main "HOL-Library.AList"
begin

section \<open>Data model\<close>

text \<open>
  The embedding follows \<^verbatim>\<open>plugins/openclaw/bridge.py\<close> and
  \<^verbatim>\<open>plugins/core/job_schema.py\<close>.

  \<^item> A \<^verbatim>\<open>datetime\<close> is an integer number of microseconds (the resolution of the type);
    \<^verbatim>\<open>total_seconds()\<close> is that number divided by \<open>10^6\<close>, as a rational (Python's
    floats are read as the exact values they round).
  \<^item> A \<^verbatim>\<open>WebSocket\<close> object is its identity, a natural number; what it was sent is
    recorded in the world part of the bridge state.
  \<^item> A \<^verbatim>\<open>VMConnection\<close> is a mutable object that the registry, the message handler and
    the routes share: connection objects live in a store, and the registry maps an
    \<^verbatim>\<open>instance_id\<close> to an address of the store.
  \<^item> A Python \<^verbatim>\<open>dict\<close> is an association list in insertion order
    (\<^const>\<open>AList.update\<close> replaces in place or appends, as \<^verbatim>\<open>d[k] = v\<close> does); a
    Python \<^verbatim>\<open>set\<close> of sockets is a list without duplicates, iterated in insertion order.
  \<^item> Every clock reading of one bridge operation is the same instant \<open>now\<close>, a parameter
    of the operation. Each operation runs to its end without interleaving.
  \<^item> Logging has no effect on the bridge and is left out.
\<close>

type_synonym time = int
type_synonym ws = nat
type_synonym ref = nat

text \<open>
  JSON values, as frames and \<^verbatim>\<open>dict()\<close> results hold them. \<open>JTime t\<close> is the instant \<open>t\<close>
  wherever a datetime is carried, as the object or as its ISO-8601 text (what
  \<^verbatim>\<open>isoformat()\<close> writes and pydantic reads back); \<open>JStr\<close> holds every other string. Job ids
  are not datetime texts.
\<close>

datatype json =
    JNull
  | JBool bool
  | JInt int
  | JFloat rat
  | JStr string
  | JTime time
  | JList "json list"
  | JObj "(string \<times> json) list"

datatype error =
    NoVMAvailable
  | SendError ws
  | AcceptError ws
  | ValidationError
  | TypeError
  | AttributeError
  | ZeroDivisionError

datatype JobStatus =
    PENDING | QUEUED | VM_BOOTING | RUNNING | PAUSED
  | COMPLETED | FAILED | CANCELLED | TIMEOUT

datatype EventType =
    JOB_QUEUED | JOB_STARTED | JOB_COMPLETED | JOB_CANCELLED | JOB_FAILED
  | EV_VM_BOOTING | VM_READY | VM_ERROR | VM_SHUTDOWN
  | TASK_STARTED | TASK_STEP_STARTED | TASK_STEP_COMPLETED | TASK_STEP_FAILED
  | LOG | STDOUT | STDERR
  | SCREENSHOT_CAPTURED | VIDEO_FRAME
  | TOOL_CALLED | TOOL_COMPLETED | TOOL_ERROR
  | NEEDS_APPROVAL | APPROVAL_GRANTED | APPROVAL_DENIED
  | NEEDS_CONTEXT | CONTEXT_PROVIDED

text \<open>\<^verbatim>\<open>Event\<close>: \<^verbatim>\<open>{type, job_id, timestamp, payload}\<close>; the payload is a JSON object.\<close>

record Event =
  ev_type :: EventType
  ev_job_id :: string
  timestamp :: time
  payload :: json

text \<open>\<^verbatim>\<open>JobStep\<close>; the fields that \<^verbatim>\<open>Job\<close> has too carry the prefix \<open>step\<close>.\<close>

record JobStep =
  index :: int
  description :: string
  step_status :: string
  tool_calls :: "json list"
  step_result :: "string option"
  step_error_message :: "string option"
  step_started_at :: "time option"
  step_completed_at :: "time option"
  screenshots :: "string list"

text \<open>
  \<^verbatim>\<open>Job\<close>. The model has no assignment validation, as the pydantic model has none:
  \<^verbatim>\<open>result\<close>, \<^verbatim>\<open>artifacts\<close>, \<^verbatim>\<open>error_message\<close> and \<^verbatim>\<open>error_code\<close> hold whatever JSON value
  a worker frame carried (\<^const>\<open>JNull\<close> is Python's \<^verbatim>\<open>None\<close>). The fields the bridge never
  reads or writes (\<^verbatim>\<open>session_id\<close>, \<^verbatim>\<open>description\<close>, \<^verbatim>\<open>status_message\<close>, \<^verbatim>\<open>created_at\<close>,
  \<^verbatim>\<open>metadata\<close>, \<^verbatim>\<open>tags\<close>) are left out.
\<close>

record Job =
  job_id :: string
  user_id :: int
  task_prompt :: string
  vm_id :: "string option"
  policy_profile :: string
  status :: JobStatus
  steps :: "JobStep list"
  current_step :: int
  result :: json
  artifacts :: json
  error_message :: json
  error_code :: json
  started_at :: "time option"
  completed_at :: "time option"
  max_runtime_minutes :: int

text \<open>\<^verbatim>\<open>VMConnection\<close>; the status is the string the code stores.\<close>

record VMConnection =
  instance_id :: string
  websocket :: ws
  bridge_token :: json
  conn_user_id :: int
  connected_at :: time
  last_ping :: time
  conn_status :: string
  current_task_id :: "string option"

section \<open>Job properties\<close>

text \<open>\<^verbatim>\<open>timedelta.total_seconds()\<close> of the difference of two instants.\<close>

definition total_seconds :: "time \<Rightarrow> time \<Rightarrow> rat" where
  "total_seconds t1 t0 = of_int (t1 - t0) / 1000000"

text \<open>\<^verbatim>\<open>Job.duration_seconds\<close>: \<^verbatim>\<open>None\<close> until the job has started.\<close>

definition duration_seconds :: "Job \<Rightarrow> time \<Rightarrow> rat option" where
  "duration_seconds job now =
     (case started_at job of
        Some st \<Rightarrow>
          (let end_time = (case completed_at job of Some c \<Rightarrow> c | None \<Rightarrow> now)
           in Some (total_seconds end_time st))
      | None \<Rightarrow> None)"

text \<open>\<^verbatim>\<open>Job.is_active\<close>.\<close>

definition is_active :: "Job \<Rightarrow> bool" where
  "is_active job = (status job \<in> set [QUEUED, VM_BOOTING, RUNNING, PAUSED])"

text \<open>Python's true division of two integers raises on a zero divisor.\<close>

definition py_truediv :: "int \<Rightarrow> int \<Rightarrow> error + rat" where
  "py_truediv a b = (if b = 0 then Inl ZeroDivisionError else Inr (of_int a / of_int b))"

text \<open>\<^verbatim>\<open>Job.progress_percentage\<close>.\<close>

definition progress_percentage :: "Job \<Rightarrow> error + rat" where
  "progress_percentage job =
     (if steps job = [] then Inr 0
      else
        (let completed =
               sum_list (map (\<lambda>step. 1) (filter (\<lambda>step. step_status step = ''completed'') (steps job)))
         in case py_truediv completed (int (length (steps job))) of
              Inl e \<Rightarrow> Inl e
            | Inr q \<Rightarrow> Inr (q * 100)))"

section \<open>Worker connections\<close>

text \<open>\<^verbatim>\<open>VMConnection.is_alive\<close>, read at the instant \<open>now\<close>.\<close>

definition is_alive :: "VMConnection \<Rightarrow> time \<Rightarrow> bool" where
  "is_alive conn now =
     (if conn_status conn \<noteq> ''online'' then False
      else total_seconds now (last_ping conn) < 60)"

section \<open>Bridge state\<close>

text \<open>A coroutine handed to \<^verbatim>\<open>asyncio.create_task\<close>; it runs later, as an operation of its own.\<close>

datatype task =
    HandleVmMessages ref
  | TryStartJob string
  | PersistEvent Event

text \<open>
  \<^verbatim>\<open>OpenClawBridge\<close>. The first five fields are the dictionaries of the class
  (\<^verbatim>\<open>job_queues\<close> holds, for each job id, the ids of the jobs put on that queue).
  \<open>conn_store\<close> and \<open>next_ref\<close> are the store of connection objects. The remaining fields
  are the world the bridge acts on: the coroutines it has scheduled, the frames delivered to
  each socket in order, the sockets it accepted and closed, and the sockets on which every
  call (\<^verbatim>\<open>accept\<close>, \<^verbatim>\<open>send_json\<close>, \<^verbatim>\<open>close\<close>) raises.
  No callback is registered anywhere in the repository, so the callback lists are empty
  and the loops over them are left out.
\<close>

record Bridge =
  connections :: "(string \<times> ref) list"
  jobs :: "(string \<times> Job) list"
  job_queues :: "(string \<times> string list) list"
  event_subscribers :: "(string \<times> ws list) list"
  instance_tasks :: "(string \<times> string) list"
  conn_store :: "ref \<Rightarrow> VMConnection"
  next_ref :: ref
  created_tasks :: "task list"
  sent :: "(ws \<times> json) list"
  accepted :: "ws list"
  closed :: "ws list"
  broken :: "ws list"

text \<open>\<^verbatim>\<open>websocket.send_json(message)\<close>, which \<^verbatim>\<open>VMConnection.send\<close> re-raises.\<close>

definition send_json :: "ws \<Rightarrow> json \<Rightarrow> Bridge \<Rightarrow> error + Bridge" where
  "send_json w message s =
     (if w \<in> set (broken s) then Inl (SendError w)
      else Inr (s\<lparr>sent := sent s @ [(w, message)]\<rparr>))"

text \<open>\<^verbatim>\<open>websocket.accept()\<close>.\<close>

definition ws_accept :: "ws \<Rightarrow> Bridge \<Rightarrow> error + Bridge" where
  "ws_accept w s =
     (if w \<in> set (broken s) then Inl (AcceptError w)
      else Inr (s\<lparr>accepted := accepted s @ [w]\<rparr>))"

text \<open>\<^verbatim>\<open>try: await websocket.close()  except: pass\<close>.\<close>

definition ws_close :: "ws \<Rightarrow> Bridge \<Rightarrow> Bridge" where
  "ws_close w s = (if w \<in> set (broken s) then s else s\<lparr>closed := closed s @ [w]\<rparr>)"

text \<open>Python's truth value of an \<^verbatim>\<open>Optional[str]\<close>: \<^verbatim>\<open>None\<close> and the empty string are false.\<close>

definition truthy :: "string option \<Rightarrow> bool" where
  "truthy v = (case v of None \<Rightarrow> False | Some x \<Rightarrow> x \<noteq> [])"

text \<open>\<^verbatim>\<open>d.get(k)\<close> on a JSON object: \<^verbatim>\<open>None\<close> for a missing key.\<close>

definition dict_get :: "(string \<times> json) list \<Rightarrow> string \<Rightarrow> json" where
  "dict_get d k = (case map_of d k of None \<Rightarrow> JNull | Some v \<Rightarrow> v)"

text \<open>\<^verbatim>\<open>set.add\<close> and \<^verbatim>\<open>set.discard\<close>.\<close>

definition set_add :: "'a \<Rightarrow> 'a list \<Rightarrow> 'a list" where
  "set_add x xs = (if x \<in> set xs then xs else xs @ [x])"

definition set_discard :: "'a \<Rightarrow> 'a list \<Rightarrow> 'a list" where
  "set_discard x xs = removeAll x xs"

section \<open>Events\<close>

fun EventType_value :: "EventType \<Rightarrow> string" where
  "EventType_value JOB_QUEUED = ''job_queued''"
| "EventType_value JOB_STARTED = ''job_started''"
| "EventType_value JOB_COMPLETED = ''job_completed''"
| "EventType_value JOB_CANCELLED = ''job_cancelled''"
| "EventType_value JOB_FAILED = ''job_failed''"
| "EventType_value EV_VM_BOOTING = ''vm_booting''"
| "EventType_value VM_READY = ''vm_ready''"
| "EventType_value VM_ERROR = ''vm_error''"
| "EventType_value VM_SHUTDOWN = ''vm_shutdown''"
| "EventType_value TASK_STARTED = ''task_started''"
| "EventType_value TASK_STEP_STARTED = ''task_step_started''"
| "EventType_value TASK_STEP_COMPLETED = ''task_step_completed''"
| "EventType_value TASK_STEP_FAILED = ''task_step_failed''"
| "EventType_value LOG = ''log''"
| "EventType_value STDOUT = ''stdout''"
| "EventType_value STDERR = ''stderr''"
| "EventType_value SCREENSHOT_CAPTURED = ''screenshot_captured''"
| "EventType_value VIDEO_FRAME = ''video_frame''"
| "EventType_value TOOL_CALLED = ''tool_called''"
| "EventType_value TOOL_COMPLETED = ''tool_completed''"
| "EventType_value TOOL_ERROR = ''tool_error''"
| "EventType_value NEEDS_APPROVAL = ''needs_approval''"
| "EventType_value APPROVAL_GRANTED = ''approval_granted''"
| "EventType_value APPROVAL_DENIED = ''approval_denied''"
| "EventType_value NEEDS_CONTEXT = ''needs_context''"
| "EventType_value CONTEXT_PROVIDED = ''context_provided''"

text \<open>\<^verbatim>\<open>event.dict()\<close>.\<close>

definition Event_dict :: "Event \<Rightarrow> json" where
  "Event_dict event =
     JObj [(''type'', JStr (EventType_value (ev_type event))),
           (''job_id'', JStr (ev_job_id event)),
           (''timestamp'', JTime (timestamp event)),
           (''payload'', payload event)]"

text \<open>
  \<^verbatim>\<open>create_event(event_type, job_id, payload)\<close>, for a job id that is a string and a
  payload whose \<^verbatim>\<open>dict()\<close> is the given object; the timestamp defaults to the clock.
\<close>

definition create_event :: "EventType \<Rightarrow> string \<Rightarrow> (string \<times> json) list \<Rightarrow> time \<Rightarrow> Event" where
  "create_event event_type jid payload_dict now =
     \<lparr>ev_type = event_type, ev_job_id = jid, timestamp = now, payload = JObj payload_dict\<rparr>"

section \<open>Event subscriptions\<close>

text \<open>\<^verbatim>\<open>subscribe_to_job\<close>.\<close>

definition subscribe_to_job :: "string \<Rightarrow> ws \<Rightarrow> Bridge \<Rightarrow> Bridge" where
  "subscribe_to_job jid w s =
     (let s1 = (if map_of (event_subscribers s) jid = None
                then s\<lparr>event_subscribers := AList.update jid [] (event_subscribers s)\<rparr>
                else s)
      in case map_of (event_subscribers s1) jid of
           None \<Rightarrow> s1
         | Some subs \<Rightarrow>
             s1\<lparr>event_subscribers := AList.update jid (set_add w subs) (event_subscribers s1)\<rparr>)"

text \<open>\<^verbatim>\<open>unsubscribe_from_job\<close>: an entry that becomes empty is deleted.\<close>

definition unsubscribe_from_job :: "string \<Rightarrow> ws \<Rightarrow> Bridge \<Rightarrow> Bridge" where
  "unsubscribe_from_job jid w s =
     (case map_of (event_subscribers s) jid of
        None \<Rightarrow> s
      | Some subs \<Rightarrow>
          (let subs' = set_discard w subs
           in if subs' = []
              then s\<lparr>event_subscribers := AList.delete jid (event_subscribers s)\<rparr>
              else s\<lparr>event_subscribers := AList.update jid subs' (event_subscribers s)\<rparr>))"

text \<open>
  The sending loop of \<^verbatim>\<open>_broadcast_event\<close>: a send that raises puts the socket on
  \<^verbatim>\<open>dead_subscribers\<close> and the loop goes on.
\<close>

fun send_to_subscribers :: "ws list \<Rightarrow> json \<Rightarrow> ws list \<Rightarrow> Bridge \<Rightarrow> ws list \<times> Bridge" where
  "send_to_subscribers [] message dead_subscribers s = (dead_subscribers, s)"
| "send_to_subscribers (w # rest) message dead_subscribers s =
     (case send_json w message s of
        Inl e \<Rightarrow> send_to_subscribers rest message (dead_subscribers @ [w]) s
      | Inr s' \<Rightarrow> send_to_subscribers rest message dead_subscribers s')"

text \<open>\<^verbatim>\<open>_broadcast_event\<close>. The entry of the job stays, also when it becomes empty.\<close>

definition broadcast_event :: "string \<Rightarrow> Event \<Rightarrow> Bridge \<Rightarrow> Bridge" where
  "broadcast_event jid event s =
     (case map_of (event_subscribers s) jid of
        None \<Rightarrow> s
      | Some subs \<Rightarrow>
          (let message = JObj [(''type'', JStr ''event''), (''event'', Event_dict event)];
               (dead_subscribers, s') = send_to_subscribers subs message [] s
           in s'\<lparr>event_subscribers :=
                   AList.update jid (fold set_discard dead_subscribers subs) (event_subscribers s')\<rparr>))"

section \<open>Connecting and disconnecting workers\<close>

definition json_of_str :: "string option \<Rightarrow> json" where
  "json_of_str v = (case v of None \<Rightarrow> JNull | Some x \<Rightarrow> JStr x)"

definition json_of_float :: "rat option \<Rightarrow> json" where
  "json_of_float v = (case v of None \<Rightarrow> JNull | Some x \<Rightarrow> JFloat x)"

text \<open>
  \<^verbatim>\<open>disconnect_vm\<close>: close the socket (errors swallowed), drop the registry entry, and,
  when the instance has an entry in \<^verbatim>\<open>instance_tasks\<close>, fail its job if that job is stored
  and active, then drop the entry.
\<close>

definition disconnect_vm :: "string \<Rightarrow> time \<Rightarrow> Bridge \<Rightarrow> Bridge" where
  "disconnect_vm iid now s =
     (case map_of (connections s) iid of
        None \<Rightarrow> s
      | Some r \<Rightarrow>
          (let connection = conn_store s r;
               s1 = ws_close (websocket connection) s;
               s2 = s1\<lparr>connections := AList.delete iid (connections s1)\<rparr>
           in case map_of (instance_tasks s2) iid of
                None \<Rightarrow> s2
              | Some task_id \<Rightarrow>
                  (let s3 =
                     (case map_of (jobs s2) task_id of
                        None \<Rightarrow> s2
                      | Some job \<Rightarrow>
                          if is_active job then
                            (let job' = job\<lparr>status := FAILED,
                                           error_message := JStr ''VM disconnected unexpectedly'',
                                           completed_at := Some now\<rparr>;
                                 s' = s2\<lparr>jobs := AList.update task_id job' (jobs s2)\<rparr>
                             in broadcast_event task_id
                                  \<lparr>ev_type = JOB_FAILED, ev_job_id = task_id, timestamp = now,
                                   payload = JObj
                                     [(''error_message'', JStr ''VM disconnected unexpectedly''),
                                      (''duration_seconds'', json_of_float (duration_seconds job' now))]\<rparr>
                                  s')
                          else s2)
                   in s3\<lparr>instance_tasks := AList.delete iid (instance_tasks s3)\<rparr>)))"

text \<open>\<^verbatim>\<open>VMConnection.__init__\<close>.\<close>

definition new_connection :: "string \<Rightarrow> ws \<Rightarrow> json \<Rightarrow> int \<Rightarrow> time \<Rightarrow> VMConnection" where
  "new_connection iid w token uid now =
     \<lparr>instance_id = iid, websocket = w, bridge_token = token, conn_user_id = uid,
      connected_at = now, last_ping = now, conn_status = ''online'', current_task_id = None\<rparr>"

text \<open>
  \<^verbatim>\<open>connect_vm\<close>. The new connection object gets the next free address of the store. The
  welcome frame is sent after the connection is in the registry; when that send raises,
  the connection stays registered and no message handler is started.
\<close>

definition connect_vm ::
    "ws \<Rightarrow> string \<Rightarrow> json \<Rightarrow> int \<Rightarrow> time \<Rightarrow> Bridge \<Rightarrow> (error + ref) \<times> Bridge" where
  "connect_vm w iid token uid now s =
     (case ws_accept w s of
        Inl e \<Rightarrow> (Inl e, s)
      | Inr s1 \<Rightarrow>
          (let s2 = (if map_of (connections s1) iid \<noteq> None then disconnect_vm iid now s1 else s1);
               connection = new_connection iid w token uid now;
               r = next_ref s2;
               s3 = s2\<lparr>conn_store := (conn_store s2)(r := connection), next_ref := Suc r\<rparr>;
               s4 = s3\<lparr>connections := AList.update iid r (connections s3)\<rparr>
           in case send_json (websocket connection)
                     (JObj [(''type'', JStr ''connected''), (''instance_id'', JStr iid),
                            (''timestamp'', JTime now)]) s4 of
                Inl e \<Rightarrow> (Inl e, s4)
              | Inr s5 \<Rightarrow> (Inr r, s5\<lparr>created_tasks := created_tasks s5 @ [HandleVmMessages r]\<rparr>)))"

text \<open>One sweep of \<^verbatim>\<open>_cleanup_loop\<close>, at the instant it wakes up.\<close>

definition dead_connections :: "Bridge \<Rightarrow> time \<Rightarrow> string list" where
  "dead_connections s now =
     map fst (filter (\<lambda>(iid, r). \<not> is_alive (conn_store s r) now) (connections s))"

definition cleanup_sweep :: "time \<Rightarrow> Bridge \<Rightarrow> Bridge" where
  "cleanup_sweep now s = fold (\<lambda>iid. disconnect_vm iid now) (dead_connections s now) s"

section \<open>Task management\<close>

text \<open>\<^verbatim>\<open>_find_available_instance\<close>: the first connection, in registry order, that is online and has no task.\<close>

fun find_available :: "(string \<times> ref) list \<Rightarrow> Bridge \<Rightarrow> string option" where
  "find_available [] s = None"
| "find_available ((iid, r) # rest) s =
     (if conn_status (conn_store s r) = ''online'' \<and> map_of (instance_tasks s) iid = None
      then Some iid
      else find_available rest s)"

definition find_available_instance :: "Bridge \<Rightarrow> string option" where
  "find_available_instance s = find_available (connections s) s"

text \<open>
  \<^verbatim>\<open>submit_job\<close>. The job is stored and marked queued before a worker is looked for; when
  none is found the exception leaves it there. \<^verbatim>\<open>_try_start_job\<close> is scheduled, not run.
\<close>

definition submit_job :: "Job \<Rightarrow> string option \<Rightarrow> time \<Rightarrow> Bridge \<Rightarrow> (error + string) \<times> Bridge" where
  "submit_job job preferred now s =
     (let job1 = job\<lparr>status := QUEUED\<rparr>;
          s1 = s\<lparr>jobs := AList.update (job_id job) job1 (jobs s)\<rparr>;
          iid = (if \<not> truthy preferred then find_available_instance s1 else preferred)
      in if \<not> truthy iid then (Inl NoVMAvailable, s1)
         else
           (let job2 = job1\<lparr>vm_id := iid\<rparr>;
                s2 = s1\<lparr>jobs := AList.update (job_id job) job2 (jobs s1),
                        job_queues := AList.update (job_id job) [job_id job] (job_queues s1)\<rparr>;
                s3 = broadcast_event (job_id job)
                       (create_event JOB_QUEUED (job_id job)
                          [(''task_prompt'', JStr (task_prompt job2)),
                           (''vm_id'', json_of_str (vm_id job2)),
                           (''policy_profile'', JStr (policy_profile job2)),
                           (''max_runtime_minutes'', JInt (max_runtime_minutes job2))] now) s2
            in (Inr (job_id job), s3\<lparr>created_tasks := created_tasks s3 @ [TryStartJob (job_id job)]\<rparr>)))"

definition json_of_time :: "time option \<Rightarrow> json" where
  "json_of_time v = (case v of None \<Rightarrow> JNull | Some t \<Rightarrow> JTime t)"

text \<open>\<^verbatim>\<open>step.dict()\<close>: every field of the step, in the order of the class.\<close>

definition JobStep_dict :: "JobStep \<Rightarrow> json" where
  "JobStep_dict step =
     JObj [(''index'', JInt (index step)),
           (''description'', JStr (description step)),
           (''status'', JStr (step_status step)),
           (''tool_calls'', JList (tool_calls step)),
           (''result'', json_of_str (step_result step)),
           (''error_message'', json_of_str (step_error_message step)),
           (''started_at'', json_of_time (step_started_at step)),
           (''completed_at'', json_of_time (step_completed_at step)),
           (''screenshots'', JList (map JStr (screenshots step)))]"

definition task_start_message :: "Job \<Rightarrow> json" where
  "task_start_message job =
     JObj [(''type'', JStr ''task_start''),
           (''task'', JObj [(''id'', JStr (job_id job)),
                            (''prompt'', JStr (task_prompt job)),
                            (''policy'', JStr (policy_profile job)),
                            (''max_runtime'', JInt (max_runtime_minutes job)),
                            (''steps'', JList (map JobStep_dict (steps job)))])]"

text \<open>
  \<^verbatim>\<open>_try_start_job\<close>. The job and the connection are marked before the frame is sent; a send
  that raises leaves them marked.
\<close>

definition try_start_job :: "string \<Rightarrow> time \<Rightarrow> Bridge \<Rightarrow> (error + unit) \<times> Bridge" where
  "try_start_job jid now s =
     (case map_of (jobs s) jid of
        None \<Rightarrow> (Inr (), s)
      | Some job \<Rightarrow>
          if status job \<noteq> QUEUED then (Inr (), s)
          else
            (case vm_id job of
               None \<Rightarrow> (Inr (), s)
             | Some v \<Rightarrow>
                 if v = [] then (Inr (), s)
                 else
                   (case map_of (connections s) v of
                      None \<Rightarrow> (Inr (), s)
                    | Some r \<Rightarrow>
                        (let job' = job\<lparr>status := RUNNING, started_at := Some now\<rparr>;
                             s1 = s\<lparr>jobs := AList.update jid job' (jobs s),
                                    instance_tasks := AList.update v jid (instance_tasks s),
                                    conn_store := (conn_store s)
                                      (r := (conn_store s r)\<lparr>current_task_id := Some jid,
                                                             conn_status := ''busy''\<rparr>)\<rparr>
                         in case send_json (websocket (conn_store s1 r)) (task_start_message job') s1 of
                              Inl e \<Rightarrow> (Inl e, s1)
                            | Inr s2 \<Rightarrow>
                                (Inr (),
                                 broadcast_event jid
                                   (create_event JOB_STARTED jid
                                      [(''vm_id'', JStr v),
                                       (''started_at'', JTime now),
                                       (''estimated_duration_minutes'', JInt (max_runtime_minutes job'))]
                                      now) s2)))))"

text \<open>
  The test \<^verbatim>\<open>job.vm_id and job.vm_id in self.connections\<close>, with the connection
  \<^verbatim>\<open>self.connections[job.vm_id]\<close> when it holds.
\<close>

definition assigned_connection :: "Job \<Rightarrow> Bridge \<Rightarrow> ref option" where
  "assigned_connection job s =
     (case vm_id job of
        None \<Rightarrow> None
      | Some v \<Rightarrow> if v = [] then None else map_of (connections s) v)"

text \<open>
  \<^verbatim>\<open>cancel_job\<close>: \<^verbatim>\<open>False\<close> for a job that is unknown or not active. The cancel frame is sent
  first; when that send raises, nothing has been changed.
\<close>

definition cancel_job :: "string \<Rightarrow> string \<Rightarrow> time \<Rightarrow> Bridge \<Rightarrow> (error + bool) \<times> Bridge" where
  "cancel_job jid reason now s =
     (case map_of (jobs s) jid of
        None \<Rightarrow> (Inr False, s)
      | Some job \<Rightarrow>
          if \<not> is_active job then (Inr False, s)
          else
            (case (case assigned_connection job s of
                     None \<Rightarrow> Inr s
                   | Some r \<Rightarrow>
                       send_json (websocket (conn_store s r))
                         (JObj [(''type'', JStr ''task_cancel''), (''task_id'', JStr jid),
                                (''reason'', JStr reason)]) s) of
               Inl e \<Rightarrow> (Inl e, s)
             | Inr s1 \<Rightarrow>
                 (let job' = job\<lparr>status := CANCELLED, completed_at := Some now\<rparr>;
                      s2 = s1\<lparr>jobs := AList.update jid job' (jobs s1)\<rparr>;
                      s3 = (case vm_id job' of
                              None \<Rightarrow> s2
                            | Some v \<Rightarrow>
                                if v \<noteq> [] \<and> map_of (instance_tasks s2) v \<noteq> None then
                                  (let s' = s2\<lparr>instance_tasks := AList.delete v (instance_tasks s2)\<rparr>
                                   in case map_of (connections s') v of
                                        None \<Rightarrow> s'
                                      | Some r \<Rightarrow>
                                          s'\<lparr>conn_store := (conn_store s')
                                               (r := (conn_store s' r)\<lparr>conn_status := ''online'',
                                                                       current_task_id := None\<rparr>)\<rparr>)
                                else s2)
                  in (Inr True,
                      broadcast_event jid
                        (create_event JOB_CANCELLED jid
                           [(''cancelled_by'', JStr ''user''),
                            (''reason'', JStr reason),
                            (''duration_seconds'', json_of_float (duration_seconds job' now))] now)
                        s3))))"

section \<open>Frames from a worker\<close>

text \<open>
  \<^verbatim>\<open>_handle_task_complete\<close>. \<^verbatim>\<open>task_id\<close> and \<^verbatim>\<open>result\<close> are what \<^verbatim>\<open>message.get\<close> returned:
  a list or an object is unhashable as a dictionary key, a value that is not a string is no
  job id, and \<^verbatim>\<open>result.get\<close> exists only on an object. The status and \<^verbatim>\<open>completed_at\<close> are
  written before \<^verbatim>\<open>result\<close> is read. The connection written to is the handler's own object.
\<close>

definition handle_task_complete ::
    "ref \<Rightarrow> json \<Rightarrow> json \<Rightarrow> time \<Rightarrow> Bridge \<Rightarrow> (error + unit) \<times> Bridge" where
  "handle_task_complete r task_id res now s =
     (case task_id of
        JList _ \<Rightarrow> (Inl TypeError, s)
      | JObj _ \<Rightarrow> (Inl TypeError, s)
      | JStr tid \<Rightarrow>
          (case map_of (jobs s) tid of
             None \<Rightarrow> (Inr (), s)
           | Some job \<Rightarrow>
               (let job1 = job\<lparr>status := COMPLETED, completed_at := Some now\<rparr>;
                    s1 = s\<lparr>jobs := AList.update tid job1 (jobs s)\<rparr>
                in case res of
                     JObj d \<Rightarrow>
                       (let job2 = job1\<lparr>result := dict_get d ''result'',
                                         artifacts := (case map_of d ''artifacts'' of
                                                         None \<Rightarrow> JList [] | Some a \<Rightarrow> a)\<rparr>;
                            s2 = s1\<lparr>jobs := AList.update tid job2 (jobs s1)\<rparr>;
                            connection = conn_store s2 r;
                            s3 = (if map_of (instance_tasks s2) (instance_id connection) \<noteq> None
                                  then s2\<lparr>instance_tasks :=
                                            AList.delete (instance_id connection) (instance_tasks s2)\<rparr>
                                  else s2);
                            s4 = s3\<lparr>conn_store := (conn_store s3)
                                      (r := connection\<lparr>conn_status := ''online'',
                                                       current_task_id := None\<rparr>)\<rparr>
                        in (Inr (),
                            broadcast_event tid
                              (create_event JOB_COMPLETED tid
                                 [(''result'', result job2),
                                  (''artifacts'', artifacts job2),
                                  (''duration_seconds'', json_of_float (duration_seconds job2 now)),
                                  (''steps_completed'', JInt (current_step job2)),
                                  (''total_steps'', JInt (int (length (steps job2))))] now)
                              s4))
                   | _ \<Rightarrow> (Inl AttributeError, s1)))
      | _ \<Rightarrow> (Inr (), s))"

text \<open>\<^verbatim>\<open>_handle_task_failed\<close>.\<close>

definition handle_task_failed ::
    "ref \<Rightarrow> json \<Rightarrow> json \<Rightarrow> time \<Rightarrow> Bridge \<Rightarrow> (error + unit) \<times> Bridge" where
  "handle_task_failed r task_id err now s =
     (case task_id of
        JList _ \<Rightarrow> (Inl TypeError, s)
      | JObj _ \<Rightarrow> (Inl TypeError, s)
      | JStr tid \<Rightarrow>
          (case map_of (jobs s) tid of
             None \<Rightarrow> (Inr (), s)
           | Some job \<Rightarrow>
               (let job1 = job\<lparr>status := FAILED, completed_at := Some now\<rparr>;
                    s1 = s\<lparr>jobs := AList.update tid job1 (jobs s)\<rparr>
                in case err of
                     JObj d \<Rightarrow>
                       (let job2 = job1\<lparr>error_message := dict_get d ''message'',
                                         error_code := dict_get d ''code''\<rparr>;
                            s2 = s1\<lparr>jobs := AList.update tid job2 (jobs s1)\<rparr>;
                            connection = conn_store s2 r;
                            s3 = (if map_of (instance_tasks s2) (instance_id connection) \<noteq> None
                                  then s2\<lparr>instance_tasks :=
                                            AList.delete (instance_id connection) (instance_tasks s2)\<rparr>
                                  else s2);
                            s4 = s3\<lparr>conn_store := (conn_store s3)
                                      (r := connection\<lparr>conn_status := ''online'',
                                                       current_task_id := None\<rparr>)\<rparr>
                        in (Inr (),
                            broadcast_event tid
                              (create_event JOB_FAILED tid
                                 [(''error_message'', error_message job2),
                                  (''error_code'', error_code job2),
                                  (''duration_seconds'', json_of_float (duration_seconds job2 now))] now)
                              s4))
                   | _ \<Rightarrow> (Inl AttributeError, s1)))
      | _ \<Rightarrow> (Inr (), s))"

text \<open>\<^verbatim>\<open>_handle_vm_event\<close>: broadcast, then schedule the persistence of the event.\<close>

definition handle_vm_event :: "ref \<Rightarrow> Event \<Rightarrow> Bridge \<Rightarrow> Bridge" where
  "handle_vm_event r event s =
     (let s1 = broadcast_event (ev_job_id event) event s
      in s1\<lparr>created_tasks := created_tasks s1 @ [PersistEvent event]\<rparr>)"

definition all_event_types :: "EventType list" where
  "all_event_types =
     [JOB_QUEUED, JOB_STARTED, JOB_COMPLETED, JOB_CANCELLED, JOB_FAILED,
      EV_VM_BOOTING, VM_READY, VM_ERROR, VM_SHUTDOWN,
      TASK_STARTED, TASK_STEP_STARTED, TASK_STEP_COMPLETED, TASK_STEP_FAILED,
      LOG, STDOUT, STDERR, SCREENSHOT_CAPTURED, VIDEO_FRAME,
      TOOL_CALLED, TOOL_COMPLETED, TOOL_ERROR,
      NEEDS_APPROVAL, APPROVAL_GRANTED, APPROVAL_DENIED, NEEDS_CONTEXT, CONTEXT_PROVIDED]"

text \<open>
  \<^verbatim>\<open>Event(**event_data)\<close>. Unpacking a value that is no object is a \<^verbatim>\<open>TypeError\<close>. The
  validation is pydantic's, outside this repository: the model accepts an object whose
  \<^verbatim>\<open>type\<close> is the value of an event type, whose \<^verbatim>\<open>job_id\<close> is a string, whose \<^verbatim>\<open>timestamp\<close>,
  when present, is a datetime or the ISO-8601 text of one (\<open>JTime\<close>), and whose \<^verbatim>\<open>payload\<close>,
  when present, is an object; a missing timestamp is the clock and a missing payload is
  empty. The numeric forms pydantic also reads as a timestamp or as a job id are rejected
  here.
\<close>

definition Event_validate :: "json \<Rightarrow> time \<Rightarrow> error + Event" where
  "Event_validate event_data now =
     (case event_data of
        JObj d \<Rightarrow>
          (case (map_of d ''type'', map_of d ''job_id'') of
             (Some (JStr t), Some (JStr j)) \<Rightarrow>
               (case find (\<lambda>et. EventType_value et = t) all_event_types of
                  None \<Rightarrow> Inl ValidationError
                | Some et \<Rightarrow>
                    (case (case map_of d ''timestamp'' of
                             None \<Rightarrow> Some now
                           | Some (JTime ts) \<Rightarrow> Some ts
                           | Some _ \<Rightarrow> None) of
                       None \<Rightarrow> Inl ValidationError
                     | Some ts \<Rightarrow>
                         (case (case map_of d ''payload'' of
                                  None \<Rightarrow> Some []
                                | Some (JObj p) \<Rightarrow> Some p
                                | Some _ \<Rightarrow> None) of
                            None \<Rightarrow> Inl ValidationError
                          | Some p \<Rightarrow>
                              Inr \<lparr>ev_type = et, ev_job_id = j, timestamp = ts, payload = JObj p\<rparr>)))
           | _ \<Rightarrow> Inl ValidationError)
      | _ \<Rightarrow> Inl TypeError)"

text \<open>
  \<^verbatim>\<open>_handle_approval_request\<close>: the request is announced to the subscribers of the job the
  frame names; nothing is stored. \<^verbatim>\<open>create_event\<close> rejects a \<^verbatim>\<open>job_id\<close> that is not a string
  and a payload that is not an object.
\<close>

definition handle_approval_request ::
    "ref \<Rightarrow> (string \<times> json) list \<Rightarrow> time \<Rightarrow> Bridge \<Rightarrow> (error + unit) \<times> Bridge" where
  "handle_approval_request r message now s =
     (case (dict_get message ''job_id'',
            (case map_of message ''payload'' of None \<Rightarrow> JObj [] | Some p \<Rightarrow> p)) of
        (JStr jid, JObj p) \<Rightarrow> (Inr (), broadcast_event jid (create_event NEEDS_APPROVAL jid p now) s)
      | _ \<Rightarrow> (Inl ValidationError, s))"

text \<open>\<^verbatim>\<open>_handle_context_request\<close>.\<close>

definition handle_context_request ::
    "ref \<Rightarrow> (string \<times> json) list \<Rightarrow> time \<Rightarrow> Bridge \<Rightarrow> (error + unit) \<times> Bridge" where
  "handle_context_request r message now s =
     (case (dict_get message ''job_id'',
            (case map_of message ''payload'' of None \<Rightarrow> JObj [] | Some p \<Rightarrow> p)) of
        (JStr jid, JObj p) \<Rightarrow> (Inr (), broadcast_event jid (create_event NEEDS_CONTEXT jid p now) s)
      | _ \<Rightarrow> (Inl ValidationError, s))"

text \<open>
  \<^verbatim>\<open>_process_vm_message\<close>, for the connection object at address \<open>r\<close> and a frame that is a
  JSON object.
\<close>

definition process_vm_message ::
    "ref \<Rightarrow> (string \<times> json) list \<Rightarrow> time \<Rightarrow> Bridge \<Rightarrow> (error + unit) \<times> Bridge" where
  "process_vm_message r message now s =
     (let msg_type = dict_get message ''type''
      in if msg_type = JStr ''pong'' then
           (Inr (), s\<lparr>conn_store := (conn_store s)(r := (conn_store s r)\<lparr>last_ping := now\<rparr>)\<rparr>)
         else if msg_type = JStr ''event'' then
           (case Event_validate (case map_of message ''event'' of None \<Rightarrow> JObj [] | Some v \<Rightarrow> v) now of
              Inl e \<Rightarrow> (Inl e, s)
            | Inr event \<Rightarrow> (Inr (), handle_vm_event r event s))
         else if msg_type = JStr ''task_complete'' then
           handle_task_complete r (dict_get message ''task_id'') (dict_get message ''result'') now s
         else if msg_type = JStr ''task_failed'' then
           handle_task_failed r (dict_get message ''task_id'') (dict_get message ''error'') now s
         else if msg_type = JStr ''needs_approval'' then
           handle_approval_request r message now s
         else if msg_type = JStr ''needs_context'' then
           handle_context_request r message now s
         else (Inr (), s))"

text \<open>
  One turn of the loop of \<^verbatim>\<open>_handle_vm_messages\<close>: any exception of the processing
  disconnects the instance whose id the connection carries.
\<close>

definition handle_vm_messages_step ::
    "ref \<Rightarrow> (string \<times> json) list \<Rightarrow> time \<Rightarrow> Bridge \<Rightarrow> Bridge" where
  "handle_vm_messages_step r message now s =
     (case process_vm_message r message now s of
        (Inl e, s') \<Rightarrow> disconnect_vm (instance_id (conn_store s' r)) now s'
      | (Inr u, s') \<Rightarrow> s')"

section \<open>Approval and context responses\<close>

text \<open>
  \<^verbatim>\<open>submit_approval_response\<close>: the loop over \<^verbatim>\<open>self.jobs.items()\<close>. The first job whose
  \<^verbatim>\<open>vm_id\<close> names a registered connection gets the response; \<^verbatim>\<open>request_id\<close> is only copied
  into the frame and the event.
\<close>

fun approval_response_loop ::
    "(string \<times> Job) list \<Rightarrow> string \<Rightarrow> bool \<Rightarrow> string option \<Rightarrow> time \<Rightarrow> Bridge
       \<Rightarrow> (error + bool) \<times> Bridge" where
  "approval_response_loop [] request_id approved reason now s = (Inr False, s)"
| "approval_response_loop ((jid, job) # rest) request_id approved reason now s =
     (case assigned_connection job s of
        Some r \<Rightarrow>
          (case send_json (websocket (conn_store s r))
                  (JObj [(''type'', JStr ''approval_response''),
                         (''request_id'', JStr request_id),
                         (''approved'', JBool approved),
                         (''reason'', json_of_str reason)]) s of
             Inl e \<Rightarrow> (Inl e, s)
           | Inr s1 \<Rightarrow>
               (Inr True,
                broadcast_event jid
                  (create_event (if approved then APPROVAL_GRANTED else APPROVAL_DENIED) jid
                     [(''request_id'', JStr request_id),
                      (''approved'', JBool approved),
                      (''reason'', json_of_str reason)] now) s1))
      | None \<Rightarrow> approval_response_loop rest request_id approved reason now s)"

definition submit_approval_response ::
    "string \<Rightarrow> bool \<Rightarrow> string option \<Rightarrow> time \<Rightarrow> Bridge \<Rightarrow> (error + bool) \<times> Bridge" where
  "submit_approval_response request_id approved reason now s =
     approval_response_loop (jobs s) request_id approved reason now s"

text \<open>\<^verbatim>\<open>submit_context_response\<close>; \<^verbatim>\<open>attachments or []\<close> first.\<close>

fun context_response_loop ::
    "(string \<times> Job) list \<Rightarrow> string \<Rightarrow> string \<Rightarrow> json list \<Rightarrow> time \<Rightarrow> Bridge
       \<Rightarrow> (error + bool) \<times> Bridge" where
  "context_response_loop [] request_id response attachments now s = (Inr False, s)"
| "context_response_loop ((jid, job) # rest) request_id response attachments now s =
     (case assigned_connection job s of
        Some r \<Rightarrow>
          (case send_json (websocket (conn_store s r))
                  (JObj [(''type'', JStr ''context_response''),
                         (''request_id'', JStr request_id),
                         (''response'', JStr response),
                         (''attachments'', JList attachments)]) s of
             Inl e \<Rightarrow> (Inl e, s)
           | Inr s1 \<Rightarrow>
               (Inr True,
                broadcast_event jid
                  (create_event CONTEXT_PROVIDED jid
                     [(''request_id'', JStr request_id),
                      (''response'', JStr response),
                      (''attachments'', JList attachments)] now) s1))
      | None \<Rightarrow> context_response_loop rest request_id response attachments now s)"

definition submit_context_response ::
    "string \<Rightarrow> string \<Rightarrow> json list option \<Rightarrow> time \<Rightarrow> Bridge \<Rightarrow> (error + bool) \<times> Bridge" where
  "submit_context_response request_id response attachments now s =
     context_response_loop (jobs s) request_id response
       (case attachments of None \<Rightarrow> [] | Some a \<Rightarrow> a) now s"

section \<open>Initial state\<close>

definition blank_connection :: VMConnection where
  "blank_connection =
     \<lparr>instance_id = [], websocket = 0, bridge_token = JNull, conn_user_id = 0,
      connected_at = 0, last_ping = 0, conn_status = ''offline'', current_task_id = None\<rparr>"

text \<open>\<^verbatim>\<open>OpenClawBridge.__init__\<close>, in a world where nothing has happened yet.\<close>

definition init_bridge :: Bridge where
  "init_bridge =
     \<lparr>connections = [], jobs = [], job_queues = [], event_subscribers = [],
      instance_tasks = [], conn_store = (\<lambda>r. blank_connection), next_ref = 0,
      created_tasks = [], sent = [], accepted = [], closed = [], broken = []\<rparr>"

section \<open>A run of the bridge\<close>

text \<open>
  The run used in the examples below: worker \<^verbatim>\<open>w1\<close> connects on socket \<open>1\<close>, job \<^verbatim>\<open>j1\<close> is
  submitted and started on it, and the client cancels the job.
\<close>

definition job1 :: Job where
  "job1 =
     \<lparr>job_id = ''j1'', user_id = 1, task_prompt = ''go to example.com'', vm_id = None,
      policy_profile = ''default'', status = PENDING, steps = [], current_step = 0,
      result = JNull, artifacts = JList [], error_message = JNull, error_code = JNull,
      started_at = None, completed_at = None, max_runtime_minutes = 30\<rparr>"

definition run_connected :: Bridge where
  "run_connected = snd (connect_vm 1 ''w1'' (JStr ''T'') 1 100 init_bridge)"

definition run_submitted :: Bridge where
  "run_submitted = snd (submit_job job1 None 200 run_connected)"

definition run_started :: Bridge where
  "run_started = snd (try_start_job ''j1'' 300 run_submitted)"

definition run_cancelled :: Bridge where
  "run_cancelled = snd (cancel_job ''j1'' ''user'' 400 run_started)"

text \<open>
  A second run continues the first while \<^verbatim>\<open>j1\<close> is running on \<^verbatim>\<open>w1\<close>: worker \<^verbatim>\<open>w2\<close> connects
  on socket \<open>2\<close>, a client on socket \<open>8\<close> subscribes to job \<^verbatim>\<open>j2\<close>, \<^verbatim>\<open>j2\<close> is submitted and
  started (on \<^verbatim>\<open>w2\<close>, the only idle worker), and \<^verbatim>\<open>w2\<close> asks for the approval \<^verbatim>\<open>r2\<close> and for
  the context \<^verbatim>\<open>r3\<close>, both for \<^verbatim>\<open>j2\<close>.
\<close>

definition job2 :: Job where
  "job2 = job1\<lparr>job_id := ''j2'', task_prompt := ''delete the old backups''\<rparr>"

definition run_second_started :: Bridge where
  "run_second_started =
     snd (try_start_job ''j2'' 330
       (snd (submit_job job2 None 320
         (subscribe_to_job ''j2'' 8
           (snd (connect_vm 2 ''w2'' (JStr ''T2'') 1 310 run_started))))))"

definition run_asked :: Bridge where
  "run_asked =
     snd (process_vm_message 1
       [(''type'', JStr ''needs_context''), (''request_id'', JStr ''r3''), (''job_id'', JStr ''j2''),
        (''payload'', JObj [(''request_id'', JStr ''r3''), (''question'', JStr ''which folder?'')])]
       350
       (snd (process_vm_message 1
         [(''type'', JStr ''needs_approval''), (''request_id'', JStr ''r2''), (''job_id'', JStr ''j2''),
          (''payload'', JObj [(''request_id'', JStr ''r2''), (''tool_name'', JStr ''shell'')])]
         340 run_second_started)))"

section \<open>Properties\<close>

lemma sum_list_ones: "sum_list (map (\<lambda>x. (1::int)) xs) = int (length xs)"
  by (induction xs) simp_all

lemma is_alive_iff:
  "is_alive conn now \<longleftrightarrow> conn_status conn = ''online'' \<and> now - last_ping conn < 60000000"
proof -
  have "(of_int (now - last_ping conn) / 1000000 < (60::rat)) = (now - last_ping conn < 60000000)"
  proof -
    have "(of_int (now - last_ping conn) / 1000000 < (60::rat))
          = ((of_int (now - last_ping conn) :: rat) < of_int 60000000)"
      by (simp add: divide_less_eq)
    also have "\<dots> = (now - last_ping conn < 60000000)"
      by (simp only: of_int_less_iff)
    finally show ?thesis .
  qed
  then show ?thesis
    by (simp add: is_alive_def total_seconds_def)
qed

text \<open>
  C3. A connection whose status is \<^verbatim>\<open>busy\<close> is not alive, however fresh its heartbeat:
  \<^verbatim>\<open>is_alive\<close> returns \<^verbatim>\<open>False\<close> for every status other than \<^verbatim>\<open>online\<close>. Here the
  connection is busy with job \<^verbatim>\<open>j1\<close> and its heartbeat is the current instant.
\<close>

theorem is_alive_busy_fresh_heartbeat:
  "is_alive
     \<lparr>instance_id = ''w1'', websocket = 0, bridge_token = JStr ''T'', conn_user_id = 1,
      connected_at = 0, last_ping = 5000000, conn_status = ''busy'',
      current_task_id = Some ''j1''\<rparr> 5000000 = False"
  by (simp add: is_alive_def)

text \<open>
  C10. \<^verbatim>\<open>progress_percentage\<close> never divides by zero: with no steps it is \<open>0\<close>, otherwise
  it is the number of steps whose status is \<^verbatim>\<open>completed\<close>, divided by the number of steps,
  times \<open>100\<close>.
\<close>

theorem progress_percentage_total:
  "progress_percentage job =
     (if steps job = [] then Inr 0
      else Inr (of_nat (length (filter (\<lambda>step. step_status step = ''completed'') (steps job)))
                / of_nat (length (steps job)) * 100))"
  by (simp add: progress_percentage_def py_truediv_def sum_list_ones)


subsection \<open>Association lists\<close>

lemma delete_absent: "map_of al k = None \<Longrightarrow> AList.delete k al = al"
  by (induction al) (auto split: if_splits)

lemma set_discard_eq: "set_discard = removeAll"
  by (rule ext)+ (simp add: set_discard_def)

lemma fold_set_discard: "fold set_discard dead xs = filter (\<lambda>w. w \<notin> set dead) xs"
proof (induction dead arbitrary: xs)
  case Nil
  then show ?case by simp
next
  case (Cons d ds)
  have "fold set_discard (d # ds) xs = filter (\<lambda>w. w \<notin> set ds) (removeAll d xs)"
    using Cons.IH [of "removeAll d xs"] by (simp add: set_discard_eq)
  also have "\<dots> = filter (\<lambda>w. w \<notin> set (d # ds)) xs"
    by (induction xs) auto
  finally show ?case .
qed

subsection \<open>Broadcast\<close>

lemma send_to_subscribers_eq:
  "send_to_subscribers subs m dead s =
     (dead @ filter (\<lambda>w. w \<in> set (broken s)) subs,
      s\<lparr>sent := sent s @ map (\<lambda>w. (w, m)) (filter (\<lambda>w. w \<notin> set (broken s)) subs)\<rparr>)"
  by (induction subs arbitrary: dead s) (simp_all add: send_json_def)

lemma broadcast_event_eq:
  assumes "map_of (event_subscribers s) jid = Some subs"
  shows "broadcast_event jid event s =
     s\<lparr>sent := sent s @ map (\<lambda>w. (w, JObj [(''type'', JStr ''event''), (''event'', Event_dict event)]))
                          (filter (\<lambda>w. w \<notin> set (broken s)) subs),
       event_subscribers :=
         AList.update jid (filter (\<lambda>w. w \<notin> set (broken s)) subs) (event_subscribers s)\<rparr>"
proof -
  have "filter (\<lambda>w. w \<notin> set (filter (\<lambda>w. w \<in> set (broken s)) subs)) subs
        = filter (\<lambda>w. w \<notin> set (broken s)) subs"
    by (rule filter_cong) auto
  then show ?thesis
    using assms by (simp add: broadcast_event_def send_to_subscribers_eq fold_set_discard)
qed

lemma broadcast_event_none:
  "map_of (event_subscribers s) jid = None \<Longrightarrow> broadcast_event jid event s = s"
  by (simp add: broadcast_event_def)

text \<open>
  C7. \<^verbatim>\<open>_broadcast_event\<close> has no failing outcome: every exception of a send is caught in
  the loop. With \<open>subs\<close> the subscribers of the job, the frame of the event is delivered, once
  and in order, to every subscriber whose send succeeds, whatever happens to the others; the
  subscribers of the job afterwards are those whose send succeeded, and the subscribers of
  every other job are as before.
\<close>

theorem broadcast_event_best_effort:
  assumes "map_of (event_subscribers s) jid = Some subs"
  shows "sent (broadcast_event jid event s) =
           sent s @ map (\<lambda>w. (w, JObj [(''type'', JStr ''event''), (''event'', Event_dict event)]))
                        (filter (\<lambda>w. w \<notin> set (broken s)) subs)
       \<and> map_of (event_subscribers (broadcast_event jid event s)) =
           (map_of (event_subscribers s))(jid \<mapsto> filter (\<lambda>w. w \<notin> set (broken s)) subs)"
  by (simp add: broadcast_event_eq [OF assms] AList.update_conv')

theorem broadcast_event_best_effort_witness:
  "map_of (event_subscribers (init_bridge\<lparr>event_subscribers := [(''j1'', [1, 2, 3])], broken := [2]\<rparr>))
      ''j1'' = Some [1, 2, 3]
   \<and> sent (broadcast_event ''j1'' (create_event LOG ''j1'' [] 10)
        (init_bridge\<lparr>event_subscribers := [(''j1'', [1, 2, 3])], broken := [2]\<rparr>)) =
       [(1, JObj [(''type'', JStr ''event''), (''event'', Event_dict (create_event LOG ''j1'' [] 10))]),
        (3, JObj [(''type'', JStr ''event''), (''event'', Event_dict (create_event LOG ''j1'' [] 10))])]
   \<and> map_of (event_subscribers (broadcast_event ''j1'' (create_event LOG ''j1'' [] 10)
        (init_bridge\<lparr>event_subscribers := [(''j1'', [1, 2, 3])], broken := [2]\<rparr>))) ''j1''
       = Some [1, 3]"
  using broadcast_event_best_effort
    [of "init_bridge\<lparr>event_subscribers := [(''j1'', [1, 2, 3])], broken := [2]\<rparr>"
        "''j1''" "[1, 2, 3]" "create_event LOG ''j1'' [] 10"]
  by (simp add: init_bridge_def)

subsection \<open>Subscribe and unsubscribe\<close>

lemma subscribe_to_job_eq:
  "subscribe_to_job jid w s =
     s\<lparr>event_subscribers :=
         AList.update jid
           (set_add w (case map_of (event_subscribers s) jid of None \<Rightarrow> [] | Some subs \<Rightarrow> subs))
           (event_subscribers s)\<rparr>"
  by (cases "map_of (event_subscribers s) jid")
     (simp_all add: subscribe_to_job_def AList.update_conv' AList.update_last)

lemma subscribe_idem:
  "subscribe_to_job jid w (subscribe_to_job jid w s) = subscribe_to_job jid w s"
  by (simp add: subscribe_to_job_eq AList.update_conv' AList.update_last set_add_def)

lemma unsubscribe_idem:
  "unsubscribe_from_job jid w (unsubscribe_from_job jid w s) = unsubscribe_from_job jid w s"
  by (cases "map_of (event_subscribers s) jid")
     (simp_all add: unsubscribe_from_job_def Let_def AList.update_conv' AList.delete_conv'
        AList.update_last set_discard_def)

lemma subscribe_unsubscribe:
  assumes "w \<notin> set (case map_of (event_subscribers s) jid of None \<Rightarrow> [] | Some subs \<Rightarrow> subs)"
    and "map_of (event_subscribers s) jid \<noteq> Some []"
  shows "unsubscribe_from_job jid w (subscribe_to_job jid w s) = s"
proof (cases "map_of (event_subscribers s) jid")
  case None
  then show ?thesis
    by (simp add: subscribe_to_job_eq unsubscribe_from_job_def AList.update_conv' set_add_def
        set_discard_def AList.delete_update_same delete_absent)
next
  case (Some subs)
  with assms have "w \<notin> set subs" and "subs \<noteq> []" by auto
  with Some show ?thesis
    by (simp add: subscribe_to_job_eq unsubscribe_from_job_def AList.update_conv' set_add_def
        set_discard_def AList.update_last AList.update_triv)
qed

text \<open>
  C9, as stated, fails. Subscribing a socket that is already subscribed changes nothing, and
  the unsubscription that follows removes it: the registry \<^verbatim>\<open>{j1: {7}}\<close> becomes empty.
  And an entry left empty by a broadcast that dropped its last subscriber is deleted by the
  unsubscription: \<^verbatim>\<open>{j1: set()}\<close> becomes empty as well.
\<close>

theorem subscribe_unsubscribe_counterexample:
  "event_subscribers
     (unsubscribe_from_job ''j1'' 7
        (subscribe_to_job ''j1'' 7 (init_bridge\<lparr>event_subscribers := [(''j1'', [7])]\<rparr>)))
     \<noteq> event_subscribers (init_bridge\<lparr>event_subscribers := [(''j1'', [7])]\<rparr>)
   \<and> event_subscribers
     (unsubscribe_from_job ''j1'' 7
        (subscribe_to_job ''j1'' 7 (init_bridge\<lparr>event_subscribers := [(''j1'', [])]\<rparr>)))
     \<noteq> event_subscribers (init_bridge\<lparr>event_subscribers := [(''j1'', [])]\<rparr>)"
  by (simp add: subscribe_to_job_def unsubscribe_from_job_def set_add_def set_discard_def
      init_bridge_def)

text \<open>
  C9, amended. When the socket is not yet subscribed to the job and the job has no empty
  entry, subscribing and then unsubscribing gives back the state it started from. In every
  state, whatever is subscribed, subscribing twice is subscribing once and unsubscribing
  twice is unsubscribing once.
\<close>

theorem subscribe_unsubscribe_laws:
  "(w \<notin> set (case map_of (event_subscribers s) jid of None \<Rightarrow> [] | Some subs \<Rightarrow> subs)
      \<and> map_of (event_subscribers s) jid \<noteq> Some []
      \<longrightarrow> unsubscribe_from_job jid w (subscribe_to_job jid w s) = s)
   \<and> subscribe_to_job jid w (subscribe_to_job jid w s) = subscribe_to_job jid w s
   \<and> unsubscribe_from_job jid w (unsubscribe_from_job jid w s) = unsubscribe_from_job jid w s"
  using subscribe_unsubscribe [of w s jid] subscribe_idem [of jid w s] unsubscribe_idem [of jid w s]
  by blast

text \<open>
  The round trip where socket \<open>7\<close> is new to a job that socket \<open>4\<close> watches; and, where \<open>7\<close>
  is subscribed already, a second subscription that changes nothing and an unsubscription
  that removes \<open>7\<close> once and for all.
\<close>

theorem subscribe_unsubscribe_laws_witness:
  "7 \<notin> set (case map_of (event_subscribers (init_bridge\<lparr>event_subscribers := [(''j1'', [4])]\<rparr>)) ''j1''
              of None \<Rightarrow> [] | Some subs \<Rightarrow> subs)
   \<and> map_of (event_subscribers (init_bridge\<lparr>event_subscribers := [(''j1'', [4])]\<rparr>)) ''j1'' \<noteq> Some []
   \<and> unsubscribe_from_job ''j1'' 7
       (subscribe_to_job ''j1'' 7 (init_bridge\<lparr>event_subscribers := [(''j1'', [4])]\<rparr>))
     = init_bridge\<lparr>event_subscribers := [(''j1'', [4])]\<rparr>
   \<and> event_subscribers (subscribe_to_job ''j1'' 7 (init_bridge\<lparr>event_subscribers := [(''j1'', [4])]\<rparr>))
     = [(''j1'', [4, 7])]
   \<and> event_subscribers
       (subscribe_to_job ''j1'' 7
          (subscribe_to_job ''j1'' 7 (init_bridge\<lparr>event_subscribers := [(''j1'', [4])]\<rparr>)))
     = [(''j1'', [4, 7])]
   \<and> event_subscribers
       (unsubscribe_from_job ''j1'' 7 (init_bridge\<lparr>event_subscribers := [(''j1'', [4, 7])]\<rparr>))
     = [(''j1'', [4])]
   \<and> event_subscribers
       (unsubscribe_from_job ''j1'' 7
          (unsubscribe_from_job ''j1'' 7 (init_bridge\<lparr>event_subscribers := [(''j1'', [4, 7])]\<rparr>)))
     = [(''j1'', [4])]"
proof -
  have a: "7 \<notin> set (case map_of (event_subscribers (init_bridge\<lparr>event_subscribers := [(''j1'', [4])]\<rparr>)) ''j1''
              of None \<Rightarrow> [] | Some subs \<Rightarrow> subs)"
    by simp
  have b: "map_of (event_subscribers (init_bridge\<lparr>event_subscribers := [(''j1'', [4])]\<rparr>)) ''j1'' \<noteq> Some []"
    by simp
  have c: "event_subscribers (subscribe_to_job ''j1'' 7 (init_bridge\<lparr>event_subscribers := [(''j1'', [4])]\<rparr>))
     = [(''j1'', [4, 7])]"
    by (simp add: subscribe_to_job_def set_add_def)
  have d: "event_subscribers
       (unsubscribe_from_job ''j1'' 7 (init_bridge\<lparr>event_subscribers := [(''j1'', [4, 7])]\<rparr>))
     = [(''j1'', [4])]"
    by (simp add: unsubscribe_from_job_def set_discard_def)
  note t1 = subscribe_unsubscribe_laws
    [of 7 "init_bridge\<lparr>event_subscribers := [(''j1'', [4])]\<rparr>" "''j1''"]
  note t2 = subscribe_unsubscribe_laws
    [of 7 "init_bridge\<lparr>event_subscribers := [(''j1'', [4, 7])]\<rparr>" "''j1''"]
  have rt: "unsubscribe_from_job ''j1'' 7
       (subscribe_to_job ''j1'' 7 (init_bridge\<lparr>event_subscribers := [(''j1'', [4])]\<rparr>))
     = init_bridge\<lparr>event_subscribers := [(''j1'', [4])]\<rparr>"
    using t1 a b by blast
  have s2: "subscribe_to_job ''j1'' 7
          (subscribe_to_job ''j1'' 7 (init_bridge\<lparr>event_subscribers := [(''j1'', [4])]\<rparr>))
     = subscribe_to_job ''j1'' 7 (init_bridge\<lparr>event_subscribers := [(''j1'', [4])]\<rparr>)"
    using t1 by blast
  have u2: "unsubscribe_from_job ''j1'' 7
          (unsubscribe_from_job ''j1'' 7 (init_bridge\<lparr>event_subscribers := [(''j1'', [4, 7])]\<rparr>))
     = unsubscribe_from_job ''j1'' 7 (init_bridge\<lparr>event_subscribers := [(''j1'', [4, 7])]\<rparr>)"
    using t2 by blast
  from a b c d rt show ?thesis by (simp only: s2 u2) simp
qed

subsection \<open>What a broadcast and a close leave alone\<close>

lemma broadcast_event_fields [simp]:
  "connections (broadcast_event j e s) = connections s"
  "jobs (broadcast_event j e s) = jobs s"
  "job_queues (broadcast_event j e s) = job_queues s"
  "instance_tasks (broadcast_event j e s) = instance_tasks s"
  "conn_store (broadcast_event j e s) = conn_store s"
  "next_ref (broadcast_event j e s) = next_ref s"
  "created_tasks (broadcast_event j e s) = created_tasks s"
  "accepted (broadcast_event j e s) = accepted s"
  "closed (broadcast_event j e s) = closed s"
  "broken (broadcast_event j e s) = broken s"
  by (cases "map_of (event_subscribers s) j"; simp add: broadcast_event_eq broadcast_event_none)+

lemma ws_close_fields [simp]:
  "connections (ws_close w s) = connections s"
  "jobs (ws_close w s) = jobs s"
  "job_queues (ws_close w s) = job_queues s"
  "event_subscribers (ws_close w s) = event_subscribers s"
  "instance_tasks (ws_close w s) = instance_tasks s"
  "conn_store (ws_close w s) = conn_store s"
  "next_ref (ws_close w s) = next_ref s"
  "created_tasks (ws_close w s) = created_tasks s"
  "sent (ws_close w s) = sent s"
  "accepted (ws_close w s) = accepted s"
  "broken (ws_close w s) = broken s"
  "closed (ws_close w s) = (if w \<in> set (broken s) then closed s else closed s @ [w])"
  by (simp_all add: ws_close_def)

subsection \<open>Submitting a job when no worker is free\<close>

lemma find_available_None_iff:
  "find_available cs s = None \<longleftrightarrow>
     (\<forall>(iid, r) \<in> set cs.
        \<not> (conn_status (conn_store s r) = ''online'' \<and> map_of (instance_tasks s) iid = None))"
  by (induction cs s rule: find_available.induct) auto

lemma find_available_jobs_update [simp]:
  "find_available cs (s\<lparr>jobs := js\<rparr>) = find_available cs s"
  by (induction cs s rule: find_available.induct) auto

text \<open>
  C2, as stated, fails: with no worker connected and no preferred worker, \<^verbatim>\<open>submit_job\<close>
  raises \<^verbatim>\<open>Exception("No VM instances available")\<close> to its caller.
\<close>

theorem submit_job_no_worker_counterexample:
  "fst (submit_job job1 None 200 init_bridge) = Inl NoVMAvailable"
  by code_simp

text \<open>
  C2, amended. When no preferred worker is given and no connection is online without a
  task, \<^verbatim>\<open>submit_job\<close> stores the job under its id with status \<^verbatim>\<open>queued\<close> and then raises:
  nothing else of the bridge changes, no event is sent and no start is scheduled.
\<close>

theorem submit_job_no_worker:
  assumes "\<not> truthy preferred"
    and "\<forall>(iid, r) \<in> set (connections s).
           \<not> (conn_status (conn_store s r) = ''online'' \<and> map_of (instance_tasks s) iid = None)"
  shows "submit_job job preferred now s =
           (Inl NoVMAvailable,
            s\<lparr>jobs := AList.update (job_id job) (job\<lparr>status := QUEUED\<rparr>) (jobs s)\<rparr>)"
proof -
  have "find_available (connections s) s = None"
    using assms(2) by (simp add: find_available_None_iff)
  then show ?thesis
    using assms(1) by (simp add: submit_job_def Let_def find_available_instance_def truthy_def)
qed

theorem submit_job_no_worker_witness:
  "\<not> truthy None
   \<and> connections run_started = [(''w1'', 0)]
   \<and> conn_status (conn_store run_started 0) = ''busy''
   \<and> fst (submit_job (job1\<lparr>job_id := ''j2''\<rparr>) None 500 run_started) = Inl NoVMAvailable
   \<and> map_option status
        (map_of (jobs (snd (submit_job (job1\<lparr>job_id := ''j2''\<rparr>) None 500 run_started))) ''j2'')
       = Some QUEUED"
proof -
  have a: "\<not> truthy None" by (simp add: truthy_def)
  have c: "connections run_started = [(''w1'', 0)]" by code_simp
  have d: "conn_status (conn_store run_started 0) = ''busy''" by code_simp
  have b: "\<forall>(iid, r) \<in> set (connections run_started).
           \<not> (conn_status (conn_store run_started r) = ''online''
              \<and> map_of (instance_tasks run_started) iid = None)"
    by (simp add: c d)
  from submit_job_no_worker [OF a b, of "job1\<lparr>job_id := ''j2''\<rparr>" 500] a c d
  show ?thesis by (simp add: AList.update_conv')
qed

subsection \<open>Replacing a connection\<close>

lemma update_absent: "map_of al k = None \<Longrightarrow> AList.update k v al = al @ [(k, v)]"
  by (induction al) (auto split: if_splits)

lemma filter_key_delete: "filter (\<lambda>(i, r). i = k) (AList.delete k al) = []"
  by (induction al) auto

lemma disconnect_vm_connections:
  "connections (disconnect_vm iid now s) = AList.delete iid (connections s)"
  by (simp add: disconnect_vm_def Let_def delete_absent split: option.splits)

lemma disconnect_vm_store:
  "conn_store (disconnect_vm iid now s) = conn_store s
   \<and> next_ref (disconnect_vm iid now s) = next_ref s
   \<and> broken (disconnect_vm iid now s) = broken s
   \<and> accepted (disconnect_vm iid now s) = accepted s"
  by (simp add: disconnect_vm_def Let_def split: option.splits)

lemma disconnect_vm_closed:
  "map_of (connections s) iid = Some r \<Longrightarrow>
   closed (disconnect_vm iid now s) =
     (if websocket (conn_store s r) \<in> set (broken s) then closed s
      else closed s @ [websocket (conn_store s r)])"
  by (simp add: disconnect_vm_def Let_def split: option.splits)

lemma disconnect_vm_fails_job:
  "map_of (connections s) iid = Some r \<Longrightarrow> map_of (instance_tasks s) iid = Some task_id \<Longrightarrow>
   map_of (jobs s) task_id = Some job \<Longrightarrow> is_active job \<Longrightarrow>
   map_of (jobs (disconnect_vm iid now s)) task_id =
     Some (job\<lparr>status := FAILED, error_message := JStr ''VM disconnected unexpectedly'',
               completed_at := Some now\<rparr>)"
  by (simp add: disconnect_vm_def Let_def AList.update_conv')

lemma disconnect_vm_distinct:
  "distinct (map fst (connections s)) \<Longrightarrow> distinct (map fst (connections (disconnect_vm iid now s)))"
  by (simp add: disconnect_vm_connections AList.distinct_delete)

lemma connect_vm_state:
  assumes "w \<notin> set (broken s)" and "map_of (connections s) iid = Some r_old"
  shows "snd (connect_vm w iid token uid now s) =
     (let d = disconnect_vm iid now (s\<lparr>accepted := accepted s @ [w]\<rparr>)
      in d\<lparr>conn_store := (conn_store d)(next_ref d := new_connection iid w token uid now),
            next_ref := Suc (next_ref d),
            connections := AList.update iid (next_ref d) (connections d),
            sent := sent d @ [(w, JObj [(''type'', JStr ''connected''), (''instance_id'', JStr iid),
                                        (''timestamp'', JTime now)])],
            created_tasks := created_tasks d @ [HandleVmMessages (next_ref d)]\<rparr>)"
  using assms
  by (simp add: connect_vm_def ws_accept_def Let_def send_json_def new_connection_def
      disconnect_vm_store)

text \<open>
  C5. Let a worker connect on a socket \<open>w\<close> that accepts, while the registry has a
  connection \<open>r_old\<close> for the same \<^verbatim>\<open>instance_id\<close>. \<^verbatim>\<open>connect_vm\<close> first runs
  \<^verbatim>\<open>disconnect_vm\<close>: in the state that leaves, the instance has no connection, the old socket
  has been closed (unless closing it raised), and the job that \<^verbatim>\<open>instance_tasks\<close> held for
  the instance, when stored and active, is failed with \<^verbatim>\<open>"VM disconnected unexpectedly"\<close> and
  \<^verbatim>\<open>completed_at\<close> the current time. Only from that state is the new connection registered:
  the registry of the result is the registry of that state plus the new entry, jobs and
  closed sockets are those of that state, and the new object is a fresh online connection
  on \<open>w\<close>. The result has exactly one entry for the instance, and a registry with one
  entry per instance keeps one entry per instance.
\<close>

theorem connect_vm_replaces:
  assumes "w \<notin> set (broken s)" and "map_of (connections s) iid = Some r_old"
  shows "map_of (connections (disconnect_vm iid now (s\<lparr>accepted := accepted s @ [w]\<rparr>))) iid = None
    \<and> closed (disconnect_vm iid now (s\<lparr>accepted := accepted s @ [w]\<rparr>)) =
        (if websocket (conn_store s r_old) \<in> set (broken s) then closed s
         else closed s @ [websocket (conn_store s r_old)])
    \<and> (\<forall>task_id job.
          map_of (instance_tasks s) iid = Some task_id \<and> map_of (jobs s) task_id = Some job
            \<and> is_active job \<longrightarrow>
          map_of (jobs (disconnect_vm iid now (s\<lparr>accepted := accepted s @ [w]\<rparr>))) task_id =
            Some (job\<lparr>status := FAILED, error_message := JStr ''VM disconnected unexpectedly'',
                      completed_at := Some now\<rparr>))
    \<and> connections (snd (connect_vm w iid token uid now s)) =
        connections (disconnect_vm iid now (s\<lparr>accepted := accepted s @ [w]\<rparr>)) @ [(iid, next_ref s)]
    \<and> jobs (snd (connect_vm w iid token uid now s)) =
        jobs (disconnect_vm iid now (s\<lparr>accepted := accepted s @ [w]\<rparr>))
    \<and> closed (snd (connect_vm w iid token uid now s)) =
        closed (disconnect_vm iid now (s\<lparr>accepted := accepted s @ [w]\<rparr>))
    \<and> conn_store (snd (connect_vm w iid token uid now s)) (next_ref s) =
        new_connection iid w token uid now
    \<and> length (filter (\<lambda>(i, r). i = iid) (connections (snd (connect_vm w iid token uid now s)))) = 1
    \<and> (distinct (map fst (connections s)) \<longrightarrow>
          distinct (map fst (connections (snd (connect_vm w iid token uid now s)))))"
proof -
  let ?s1 = "s\<lparr>accepted := accepted s @ [w]\<rparr>"
  let ?d = "disconnect_vm iid now ?s1"
  let ?s' = "snd (connect_vm w iid token uid now s)"
  have c1: "map_of (connections ?s1) iid = Some r_old" using assms(2) by simp
  have gone: "map_of (connections ?d) iid = None"
    by (simp add: disconnect_vm_connections AList.delete_conv')
  have cl: "closed ?d = (if websocket (conn_store s r_old) \<in> set (broken s) then closed s
         else closed s @ [websocket (conn_store s r_old)])"
    using disconnect_vm_closed [OF c1, of now] by simp
  have jb: "\<forall>task_id job.
          map_of (instance_tasks s) iid = Some task_id \<and> map_of (jobs s) task_id = Some job
            \<and> is_active job \<longrightarrow>
          map_of (jobs ?d) task_id =
            Some (job\<lparr>status := FAILED, error_message := JStr ''VM disconnected unexpectedly'',
                      completed_at := Some now\<rparr>)"
    using disconnect_vm_fails_job [OF c1, of _ _ now] by simp
  have nr: "next_ref ?d = next_ref s" by (simp add: disconnect_vm_store)
  have st: "?s' = ?d\<lparr>conn_store := (conn_store ?d)(next_ref ?d := new_connection iid w token uid now),
            next_ref := Suc (next_ref ?d),
            connections := AList.update iid (next_ref ?d) (connections ?d),
            sent := sent ?d @ [(w, JObj [(''type'', JStr ''connected''), (''instance_id'', JStr iid),
                                        (''timestamp'', JTime now)])],
            created_tasks := created_tasks ?d @ [HandleVmMessages (next_ref ?d)]\<rparr>"
    using connect_vm_state [OF assms, of token uid now] by (simp add: Let_def)
  have cs: "connections ?s' = connections ?d @ [(iid, next_ref s)]"
    by (simp add: st nr update_absent [OF gone])
  have one: "length (filter (\<lambda>(i, r). i = iid) (connections ?s')) = 1"
    by (simp add: cs disconnect_vm_connections filter_key_delete)
  have dist: "distinct (map fst (connections s)) \<longrightarrow> distinct (map fst (connections ?s'))"
    by (simp add: st disconnect_vm_connections AList.distinct_update AList.distinct_delete)
  have jobs: "jobs ?s' = jobs ?d" and closed: "closed ?s' = closed ?d"
    and new: "conn_store ?s' (next_ref s) = new_connection iid w token uid now"
    by (simp_all add: st nr)
  from gone cl jb cs jobs closed new one dist show ?thesis by blast
qed

theorem connect_vm_replaces_witness:
  "2 \<notin> set (broken run_started)
   \<and> map_of (connections run_started) ''w1'' = Some 0
   \<and> map_of (instance_tasks run_started) ''w1'' = Some ''j1''
   \<and> map_option is_active (map_of (jobs run_started) ''j1'') = Some True
   \<and> connections (snd (connect_vm 2 ''w1'' (JStr ''T'') 1 500 run_started)) = [(''w1'', 1)]
   \<and> websocket (conn_store (snd (connect_vm 2 ''w1'' (JStr ''T'') 1 500 run_started)) 1) = 2
   \<and> closed (snd (connect_vm 2 ''w1'' (JStr ''T'') 1 500 run_started)) = [1]
   \<and> map_of (jobs (snd (connect_vm 2 ''w1'' (JStr ''T'') 1 500 run_started))) ''j1'' =
       Some (job1\<lparr>vm_id := Some ''w1'', status := FAILED,
                   error_message := JStr ''VM disconnected unexpectedly'',
                   started_at := Some 300, completed_at := Some 500\<rparr>)"
proof -
  have a: "2 \<notin> set (broken run_started)" by code_simp
  have b: "map_of (connections run_started) ''w1'' = Some 0" by code_simp
  have c: "map_of (instance_tasks run_started) ''w1'' = Some ''j1''" by code_simp
  have d: "map_option is_active (map_of (jobs run_started) ''j1'') = Some True" by code_simp
  have e: "connections (snd (connect_vm 2 ''w1'' (JStr ''T'') 1 500 run_started)) = [(''w1'', 1)]"
    by code_simp
  have f: "websocket (conn_store (snd (connect_vm 2 ''w1'' (JStr ''T'') 1 500 run_started)) 1) = 2"
    by code_simp
  have g: "closed (snd (connect_vm 2 ''w1'' (JStr ''T'') 1 500 run_started)) = [1]"
    by code_simp
  have h: "map_of (jobs (snd (connect_vm 2 ''w1'' (JStr ''T'') 1 500 run_started))) ''j1'' =
       Some (job1\<lparr>vm_id := Some ''w1'', status := FAILED,
                   error_message := JStr ''VM disconnected unexpectedly'',
                   started_at := Some 300, completed_at := Some 500\<rparr>)"
    by code_simp
  from connect_vm_replaces [OF a b, of 500 "JStr ''T''" 1] a b c d e f g h
  show ?thesis by simp
qed

subsection \<open>Heartbeats\<close>

lemma handle_task_complete_last_ping:
  "last_ping (conn_store (snd (handle_task_complete r t res now s)) r') = last_ping (conn_store s r')"
  by (simp add: handle_task_complete_def Let_def split: json.splits option.splits)

lemma handle_task_failed_last_ping:
  "last_ping (conn_store (snd (handle_task_failed r t err now s)) r') = last_ping (conn_store s r')"
  by (simp add: handle_task_failed_def Let_def split: json.splits option.splits)

lemma handle_approval_request_store:
  "conn_store (snd (handle_approval_request r m now s)) = conn_store s"
  by (simp add: handle_approval_request_def split: json.splits option.splits prod.splits)

lemma handle_context_request_store:
  "conn_store (snd (handle_context_request r m now s)) = conn_store s"
  by (simp add: handle_context_request_def split: json.splits option.splits prod.splits)

lemma handle_vm_event_store: "conn_store (handle_vm_event r e s) = conn_store s"
  by (simp add: handle_vm_event_def Let_def)

text \<open>
  C6, as stated, fails. Worker \<^verbatim>\<open>w1\<close>, whose last heartbeat is at \<open>100\<close>, sends at \<open>500\<close>
  an \<^verbatim>\<open>event\<close> frame, a \<^verbatim>\<open>needs_approval\<close> frame and a \<^verbatim>\<open>task_complete\<close> frame: after each
  of them \<^verbatim>\<open>last_ping\<close> is still \<open>100\<close>.
\<close>

theorem process_vm_message_last_ping_counterexample:
  "last_ping (conn_store run_started 0) = 100
   \<and> last_ping (conn_store (snd (process_vm_message 0
        [(''type'', JStr ''event''),
         (''event'', JObj [(''type'', JStr ''log''), (''job_id'', JStr ''j1'')])]
        500 run_started)) 0) \<noteq> 500
   \<and> last_ping (conn_store (snd (process_vm_message 0
        [(''type'', JStr ''needs_approval''), (''request_id'', JStr ''r1''), (''job_id'', JStr ''j1'')]
        500 run_started)) 0) \<noteq> 500
   \<and> last_ping (conn_store (snd (process_vm_message 0
        [(''type'', JStr ''task_complete''), (''task_id'', JStr ''j1''),
         (''result'', JObj [(''result'', JStr ''done'')])]
        500 run_started)) 0) \<noteq> 500"
  by code_simp

text \<open>
  C6, amended. Processing a frame sets \<^verbatim>\<open>last_ping\<close> of the connection it came from to the
  current time when the frame's type is \<^verbatim>\<open>pong\<close>; a frame of any other type (\<^verbatim>\<open>event\<close>,
  \<^verbatim>\<open>task_complete\<close>, \<^verbatim>\<open>task_failed\<close>, \<^verbatim>\<open>needs_approval\<close>, \<^verbatim>\<open>needs_context\<close>, unknown), processed
  to its end or to an exception, leaves \<^verbatim>\<open>last_ping\<close> as it was. No frame changes the
  \<^verbatim>\<open>last_ping\<close> of another connection.
\<close>

theorem process_vm_message_last_ping:
  "last_ping (conn_store (snd (process_vm_message r message now s)) r') =
     (if dict_get message ''type'' = JStr ''pong'' \<and> r' = r then now
      else last_ping (conn_store s r'))"
  by (simp add: process_vm_message_def Let_def handle_task_complete_last_ping
      handle_task_failed_last_ping handle_approval_request_store handle_context_request_store
      handle_vm_event_store split: sum.splits)

subsection \<open>Cancelling\<close>

lemma cancel_job_inactive:
  "map_of (jobs s) jid = Some job \<Longrightarrow> \<not> is_active job \<Longrightarrow>
   cancel_job jid reason now s = (Inr False, s)"
  by (simp add: cancel_job_def)

lemma cancel_job_unknown:
  "map_of (jobs s) jid = None \<Longrightarrow> cancel_job jid reason now s = (Inr False, s)"
  by (simp add: cancel_job_def)

lemma cancel_job_send_fails:
  "map_of (jobs s) jid = Some job \<Longrightarrow> is_active job \<Longrightarrow> assigned_connection job s = Some r \<Longrightarrow>
   websocket (conn_store s r) \<in> set (broken s) \<Longrightarrow>
   cancel_job jid reason now s = (Inl (SendError (websocket (conn_store s r))), s)"
  by (simp add: cancel_job_def send_json_def)

lemma cancel_job_done:
  assumes "map_of (jobs s) jid = Some job" and "is_active job"
    and "\<forall>r. assigned_connection job s = Some r \<longrightarrow> websocket (conn_store s r) \<notin> set (broken s)"
  shows "fst (cancel_job jid reason now s) = Inr True
       \<and> map_of (jobs (snd (cancel_job jid reason now s))) jid
           = Some (job\<lparr>status := CANCELLED, completed_at := Some now\<rparr>)"
  using assms
  by (cases "assigned_connection job s")
     (auto simp add: cancel_job_def send_json_def Let_def AList.update_conv'
        split: option.splits)

text \<open>
  C8, as stated, fails in its second half. When the socket of the job's worker is broken,
  the cancel frame cannot be sent and \<^verbatim>\<open>cancel_job\<close> raises before it changes anything: job
  \<^verbatim>\<open>j1\<close> is still running, and the second call observes an active job and raises again.
\<close>

theorem cancel_job_twice_counterexample:
  "fst (cancel_job ''j1'' ''user'' 400 (run_started\<lparr>broken := [1]\<rparr>)) = Inl (SendError 1)
   \<and> map_option is_active
        (map_of (jobs (snd (cancel_job ''j1'' ''user'' 400 (run_started\<lparr>broken := [1]\<rparr>)))) ''j1'')
       = Some True
   \<and> fst (cancel_job ''j1'' ''user'' 450
            (snd (cancel_job ''j1'' ''user'' 400 (run_started\<lparr>broken := [1]\<rparr>))))
       = Inl (SendError 1)"
  by code_simp

text \<open>
  C8, amended. A second \<^verbatim>\<open>cancel_job\<close> for the same job, with any reason and at any later
  time, leaves the whole bridge state (jobs, connections, \<^verbatim>\<open>instance_tasks\<close>, subscribers,
  frames sent) as the first call left it.
  \<^item> When the first call returns, the job is unknown or not active afterwards, and the
    second call returns \<^verbatim>\<open>False\<close>.
  \<^item> When the first call raises, it was the send of the cancel frame to the registered
    worker of an active job that raised; the first call has changed nothing, and the second
    call raises in the same way.
  \<^item> The first call returns \<^verbatim>\<open>True\<close> for every active job whose cancel frame, if it has a
    registered worker, can be sent, and only for such a job; the job is then cancelled with
    \<^verbatim>\<open>completed_at\<close> the time of the first call.
\<close>

theorem cancel_job_twice:
  "snd (cancel_job jid reason' now' (snd (cancel_job jid reason now s))) =
     snd (cancel_job jid reason now s)
   \<and> (\<forall>b. fst (cancel_job jid reason now s) = Inr b \<longrightarrow>
          (case map_of (jobs (snd (cancel_job jid reason now s))) jid of
             None \<Rightarrow> True
           | Some job \<Rightarrow> \<not> is_active job)
          \<and> fst (cancel_job jid reason' now' (snd (cancel_job jid reason now s))) = Inr False)
   \<and> (\<forall>e. fst (cancel_job jid reason now s) = Inl e \<longrightarrow>
          snd (cancel_job jid reason now s) = s
          \<and> fst (cancel_job jid reason' now' (snd (cancel_job jid reason now s))) = Inl e
          \<and> (\<exists>job r. map_of (jobs s) jid = Some job \<and> is_active job
                \<and> assigned_connection job s = Some r
                \<and> websocket (conn_store s r) \<in> set (broken s)
                \<and> e = SendError (websocket (conn_store s r))))
   \<and> (\<forall>job. map_of (jobs s) jid = Some job \<and> is_active job
          \<and> (\<forall>r. assigned_connection job s = Some r \<longrightarrow>
                 websocket (conn_store s r) \<notin> set (broken s)) \<longrightarrow>
          fst (cancel_job jid reason now s) = Inr True
          \<and> map_of (jobs (snd (cancel_job jid reason now s))) jid =
              Some (job\<lparr>status := CANCELLED, completed_at := Some now\<rparr>))
   \<and> (fst (cancel_job jid reason now s) = Inr True \<longrightarrow>
        (\<exists>job. map_of (jobs s) jid = Some job \<and> is_active job
           \<and> (\<forall>r. assigned_connection job s = Some r \<longrightarrow>
                  websocket (conn_store s r) \<notin> set (broken s))))"
proof (cases "map_of (jobs s) jid")
  case None
  then show ?thesis by (simp add: cancel_job_unknown)
next
  case (Some job)
  show ?thesis
  proof (cases "is_active job")
    case False
    with Some show ?thesis by (simp add: cancel_job_inactive)
  next
    case True
    show ?thesis
    proof (cases "\<exists>r. assigned_connection job s = Some r \<and> websocket (conn_store s r) \<in> set (broken s)")
      case True
      then obtain r where "assigned_connection job s = Some r"
        and "websocket (conn_store s r) \<in> set (broken s)" by blast
      with Some \<open>is_active job\<close> show ?thesis
        by (simp add: cancel_job_send_fails)
    next
      case False
      then have ok: "\<forall>r. assigned_connection job s = Some r \<longrightarrow>
                       websocket (conn_store s r) \<notin> set (broken s)"
        by blast
      have first: "fst (cancel_job jid reason now s) = Inr True"
        and job': "map_of (jobs (snd (cancel_job jid reason now s))) jid
           = Some (job\<lparr>status := CANCELLED, completed_at := Some now\<rparr>)"
        using cancel_job_done [OF Some \<open>is_active job\<close> ok] by simp_all
      have inactive: "\<not> is_active (job\<lparr>status := CANCELLED, completed_at := Some now\<rparr>)"
        by (simp add: is_active_def)
      with job' have "cancel_job jid reason' now' (snd (cancel_job jid reason now s))
          = (Inr False, snd (cancel_job jid reason now s))"
        by (rule cancel_job_inactive)
      with first job' inactive Some \<open>is_active job\<close> ok show ?thesis by simp
    qed
  qed
qed

text \<open>
  Cancelling the running job \<^verbatim>\<open>j1\<close> takes effect: the cancel frame goes to \<^verbatim>\<open>w1\<close>, the job is
  cancelled, the worker is released and online again; a second call returns \<^verbatim>\<open>False\<close> and
  sends nothing. With the socket of \<^verbatim>\<open>w1\<close> broken both calls raise and \<^verbatim>\<open>j1\<close> keeps running.
\<close>

theorem cancel_job_twice_witness:
  "fst (cancel_job ''j1'' ''user'' 400 run_started) = Inr True
   \<and> map_of (jobs run_cancelled) ''j1'' =
       Some (job1\<lparr>vm_id := Some ''w1'', status := CANCELLED,
                   started_at := Some 300, completed_at := Some 400\<rparr>)
   \<and> instance_tasks run_started = [(''w1'', ''j1'')] \<and> instance_tasks run_cancelled = []
   \<and> conn_status (conn_store run_started 0) = ''busy''
   \<and> conn_status (conn_store run_cancelled 0) = ''online''
   \<and> sent run_cancelled = sent run_started @
        [(1, JObj [(''type'', JStr ''task_cancel''), (''task_id'', JStr ''j1''),
                   (''reason'', JStr ''user'')])]
   \<and> cancel_job ''j1'' ''again'' 450 run_cancelled = (Inr False, run_cancelled)
   \<and> cancel_job ''j1'' ''again'' 450 (run_started\<lparr>broken := [1]\<rparr>)
       = (Inl (SendError 1), run_started\<lparr>broken := [1]\<rparr>)"
proof -
  have a: "fst (cancel_job ''j1'' ''user'' 400 run_started) = Inr True" by code_simp
  have b: "map_of (jobs run_cancelled) ''j1'' =
       Some (job1\<lparr>vm_id := Some ''w1'', status := CANCELLED,
                   started_at := Some 300, completed_at := Some 400\<rparr>)"
    by code_simp
  have c: "instance_tasks run_started = [(''w1'', ''j1'')] \<and> instance_tasks run_cancelled = []"
    by code_simp
  have d: "conn_status (conn_store run_started 0) = ''busy''
           \<and> conn_status (conn_store run_cancelled 0) = ''online''"
    by code_simp
  have e: "sent run_cancelled = sent run_started @
        [(1, JObj [(''type'', JStr ''task_cancel''), (''task_id'', JStr ''j1''),
                   (''reason'', JStr ''user'')])]"
    by code_simp
  have f: "fst (cancel_job ''j1'' ''user'' 400 (run_started\<lparr>broken := [1]\<rparr>)) = Inl (SendError 1)"
    by code_simp
  note t1 = cancel_job_twice
    [where jid = "''j1''" and reason = "''user''" and now = 400 and s = run_started
       and reason' = "''again''" and now' = 450]
  note t2 = cancel_job_twice
    [where jid = "''j1''" and reason = "''user''" and now = 400
       and s = "run_started\<lparr>broken := [1]\<rparr>" and reason' = "''again''" and now' = 450]
  have g1: "fst (cancel_job ''j1'' ''again'' 450 (snd (cancel_job ''j1'' ''user'' 400 run_started)))
             = Inr False"
    using t1 a by blast
  have g2: "snd (cancel_job ''j1'' ''again'' 450 (snd (cancel_job ''j1'' ''user'' 400 run_started)))
             = snd (cancel_job ''j1'' ''user'' 400 run_started)"
    using t1 by blast
  have g: "cancel_job ''j1'' ''again'' 450 run_cancelled = (Inr False, run_cancelled)"
    using g1 g2 by (simp add: run_cancelled_def prod_eq_iff)
  have h0: "snd (cancel_job ''j1'' ''user'' 400 (run_started\<lparr>broken := [1]\<rparr>))
             = run_started\<lparr>broken := [1]\<rparr>"
    using t2 f by blast
  have h1: "fst (cancel_job ''j1'' ''again'' 450
                  (snd (cancel_job ''j1'' ''user'' 400 (run_started\<lparr>broken := [1]\<rparr>))))
             = Inl (SendError 1)"
    using t2 f by blast
  have h2: "snd (cancel_job ''j1'' ''again'' 450
                  (snd (cancel_job ''j1'' ''user'' 400 (run_started\<lparr>broken := [1]\<rparr>))))
             = snd (cancel_job ''j1'' ''user'' 400 (run_started\<lparr>broken := [1]\<rparr>))"
    using t2 by blast
  have h: "cancel_job ''j1'' ''again'' 450 (run_started\<lparr>broken := [1]\<rparr>)
       = (Inl (SendError 1), run_started\<lparr>broken := [1]\<rparr>)"
    using h1 h2 unfolding h0 by (simp add: prod_eq_iff)
  from a b c d e g h show ?thesis by simp
qed

subsection \<open>Frames for a job that has ended\<close>

text \<open>
  C4. Job \<^verbatim>\<open>j1\<close>, running on \<^verbatim>\<open>w1\<close>, is cancelled at \<open>400\<close>. The worker's \<^verbatim>\<open>task_complete\<close>
  frame for \<^verbatim>\<open>j1\<close>, processed at \<open>500\<close>, turns the cancelled job into a completed one, with a
  result and a new \<^verbatim>\<open>completed_at\<close>; a \<^verbatim>\<open>task_failed\<close> frame turns it into a failed one.
  \<^verbatim>\<open>_handle_task_complete\<close> and \<^verbatim>\<open>_handle_task_failed\<close> do not test \<^verbatim>\<open>is_active\<close>, as \<^verbatim>\<open>cancel_job\<close>
  and \<^verbatim>\<open>disconnect_vm\<close> do.
\<close>

theorem task_complete_overwrites_cancelled_job:
  "map_of (jobs run_cancelled) ''j1'' =
     Some (job1\<lparr>vm_id := Some ''w1'', status := CANCELLED,
                 started_at := Some 300, completed_at := Some 400\<rparr>)
   \<and> map_of (jobs (snd (process_vm_message 0
        [(''type'', JStr ''task_complete''), (''task_id'', JStr ''j1''),
         (''result'', JObj [(''result'', JStr ''done'')])]
        500 run_cancelled))) ''j1'' =
     Some (job1\<lparr>vm_id := Some ''w1'', status := COMPLETED, result := JStr ''done'',
                 started_at := Some 300, completed_at := Some 500\<rparr>)
   \<and> map_of (jobs (snd (process_vm_message 0
        [(''type'', JStr ''task_failed''), (''task_id'', JStr ''j1''),
         (''error'', JObj [(''message'', JStr ''boom''), (''code'', JStr ''E1'')])]
        500 run_cancelled))) ''j1'' =
     Some (job1\<lparr>vm_id := Some ''w1'', status := FAILED,
                 error_message := JStr ''boom'', error_code := JStr ''E1'',
                 started_at := Some 300, completed_at := Some 500\<rparr>)"
  by code_simp

subsection \<open>A busy worker under the cleanup loop\<close>

text \<open>
  Half a minute after \<^verbatim>\<open>j1\<close> started on \<^verbatim>\<open>w1\<close>, whose heartbeat is less than 60 seconds
  old, a sweep of the cleanup loop finds the busy connection not alive, removes it and
  fails the job.
\<close>

lemma cleanup_sweep_reaps_busy_worker:
  "total_seconds 30000300 (last_ping (conn_store run_started 0)) < 60
   \<and> connections (cleanup_sweep 30000300 run_started) = []
   \<and> map_option status (map_of (jobs (cleanup_sweep 30000300 run_started)) ''j1'') = Some FAILED"
  by code_simp

subsection \<open>Responses to approval and context requests\<close>

lemma approval_response_loop_outcome:
  "(case approval_response_loop js request_id approved reason now s of
      (Inr False, s') \<Rightarrow> s' = s \<and> (\<forall>(jid, job) \<in> set js. assigned_connection job s = None)
    | (Inr True, s') \<Rightarrow>
        (\<exists>(jid, job) \<in> set js. \<exists>r. assigned_connection job s = Some r
           \<and> websocket (conn_store s r) \<notin> set (broken s)
           \<and> s' = broadcast_event jid
                  (create_event (if approved then APPROVAL_GRANTED else APPROVAL_DENIED) jid
                     [(''request_id'', JStr request_id), (''approved'', JBool approved),
                      (''reason'', json_of_str reason)] now)
                  (s\<lparr>sent := sent s @
                     [(websocket (conn_store s r),
                       JObj [(''type'', JStr ''approval_response''),
                             (''request_id'', JStr request_id),
                             (''approved'', JBool approved),
                             (''reason'', json_of_str reason)])]\<rparr>))
    | (Inl e, s') \<Rightarrow>
        s' = s \<and> (\<exists>(jid, job) \<in> set js. \<exists>r. assigned_connection job s = Some r
           \<and> websocket (conn_store s r) \<in> set (broken s)
           \<and> e = SendError (websocket (conn_store s r))))"
proof (induction js)
  case Nil
  show ?case by simp
next
  case (Cons p js)
  obtain jid job where p: "p = (jid, job)" by (cases p)
  show ?case
  proof (cases "assigned_connection job s")
    case None
    obtain res s' where R: "approval_response_loop js request_id approved reason now s = (res, s')"
      by (cases "approval_response_loop js request_id approved reason now s")
    have eq: "approval_response_loop (p # js) request_id approved reason now s = (res, s')"
      using p None R by simp
    show ?thesis
    proof (cases res)
      case (Inl e)
      with Cons.IH R show ?thesis unfolding eq by auto
    next
      case (Inr b)
      show ?thesis
      proof (cases b)
        case True
        with Cons.IH R Inr show ?thesis unfolding eq by auto
      next
        case False
        with Cons.IH R Inr p None show ?thesis unfolding eq by simp
      qed
    qed
  next
    case (Some r)
    with p show ?thesis
      by (auto simp add: send_json_def)
  qed
qed

lemma context_response_loop_outcome:
  "(case context_response_loop js request_id response attachments now s of
      (Inr False, s') \<Rightarrow> s' = s \<and> (\<forall>(jid, job) \<in> set js. assigned_connection job s = None)
    | (Inr True, s') \<Rightarrow>
        (\<exists>(jid, job) \<in> set js. \<exists>r. assigned_connection job s = Some r
           \<and> websocket (conn_store s r) \<notin> set (broken s)
           \<and> s' = broadcast_event jid
                  (create_event CONTEXT_PROVIDED jid
                     [(''request_id'', JStr request_id), (''response'', JStr response),
                      (''attachments'', JList attachments)] now)
                  (s\<lparr>sent := sent s @
                     [(websocket (conn_store s r),
                       JObj [(''type'', JStr ''context_response''),
                             (''request_id'', JStr request_id),
                             (''response'', JStr response),
                             (''attachments'', JList attachments)])]\<rparr>))
    | (Inl e, s') \<Rightarrow>
        s' = s \<and> (\<exists>(jid, job) \<in> set js. \<exists>r. assigned_connection job s = Some r
           \<and> websocket (conn_store s r) \<in> set (broken s)
           \<and> e = SendError (websocket (conn_store s r))))"
proof (induction js)
  case Nil
  show ?case by simp
next
  case (Cons p js)
  obtain jid job where p: "p = (jid, job)" by (cases p)
  show ?case
  proof (cases "assigned_connection job s")
    case None
    obtain res s' where R: "context_response_loop js request_id response attachments now s = (res, s')"
      by (cases "context_response_loop js request_id response attachments now s")
    have eq: "context_response_loop (p # js) request_id response attachments now s = (res, s')"
      using p None R by simp
    show ?thesis
    proof (cases res)
      case (Inl e)
      with Cons.IH R show ?thesis unfolding eq by auto
    next
      case (Inr b)
      show ?thesis
      proof (cases b)
        case True
        with Cons.IH R Inr show ?thesis unfolding eq by auto
      next
        case False
        with Cons.IH R Inr p None show ?thesis unfolding eq by simp
      qed
    qed
  next
    case (Some r)
    with p show ?thesis
      by (auto simp add: send_json_def)
  qed
qed

text \<open>
  What the two response methods do, in every state: the outcome depends on the stored
  jobs and the registry, and on the request id not at all.
\<close>

lemma submit_response_outcome:
  "(case submit_approval_response request_id approved reason now s of
      (Inr False, s') \<Rightarrow>
        s' = s \<and> (\<forall>(jid, job) \<in> set (jobs s). assigned_connection job s = None)
    | (Inr True, s') \<Rightarrow>
        (\<exists>(jid, job) \<in> set (jobs s). \<exists>r. assigned_connection job s = Some r
           \<and> websocket (conn_store s r) \<notin> set (broken s)
           \<and> s' = broadcast_event jid
                  (create_event (if approved then APPROVAL_GRANTED else APPROVAL_DENIED) jid
                     [(''request_id'', JStr request_id), (''approved'', JBool approved),
                      (''reason'', json_of_str reason)] now)
                  (s\<lparr>sent := sent s @
                     [(websocket (conn_store s r),
                       JObj [(''type'', JStr ''approval_response''),
                             (''request_id'', JStr request_id),
                             (''approved'', JBool approved),
                             (''reason'', json_of_str reason)])]\<rparr>))
    | (Inl e, s') \<Rightarrow>
        s' = s \<and> (\<exists>(jid, job) \<in> set (jobs s). \<exists>r. assigned_connection job s = Some r
           \<and> websocket (conn_store s r) \<in> set (broken s)
           \<and> e = SendError (websocket (conn_store s r))))
   \<and> (case submit_context_response request_id response attachments now s of
      (Inr False, s') \<Rightarrow>
        s' = s \<and> (\<forall>(jid, job) \<in> set (jobs s). assigned_connection job s = None)
    | (Inr True, s') \<Rightarrow>
        (\<exists>(jid, job) \<in> set (jobs s). \<exists>r. assigned_connection job s = Some r
           \<and> websocket (conn_store s r) \<notin> set (broken s)
           \<and> s' = broadcast_event jid
                  (create_event CONTEXT_PROVIDED jid
                     [(''request_id'', JStr request_id), (''response'', JStr response),
                      (''attachments'', JList (case attachments of None \<Rightarrow> [] | Some a \<Rightarrow> a))] now)
                  (s\<lparr>sent := sent s @
                     [(websocket (conn_store s r),
                       JObj [(''type'', JStr ''context_response''),
                             (''request_id'', JStr request_id),
                             (''response'', JStr response),
                             (''attachments'', JList (case attachments of None \<Rightarrow> [] | Some a \<Rightarrow> a))])]\<rparr>))
    | (Inl e, s') \<Rightarrow>
        s' = s \<and> (\<exists>(jid, job) \<in> set (jobs s). \<exists>r. assigned_connection job s = Some r
           \<and> websocket (conn_store s r) \<in> set (broken s)
           \<and> e = SendError (websocket (conn_store s r))))"
  using approval_response_loop_outcome
      [where js = "jobs s" and request_id = request_id and approved = approved
         and reason = reason and now = now and s = s]
    context_response_loop_outcome
      [where js = "jobs s" and request_id = request_id and response = response
         and attachments = "case attachments of None \<Rightarrow> [] | Some a \<Rightarrow> a"
         and now = now and s = s]
  by (simp add: submit_approval_response_def submit_context_response_def)

text \<open>
  C1. In the second run \<^verbatim>\<open>w2\<close> (socket \<open>2\<close>) has asked for the approval \<^verbatim>\<open>r2\<close> and the context
  \<^verbatim>\<open>r3\<close>, both for its job \<^verbatim>\<open>j2\<close>, and the client on socket \<open>8\<close> has been told. The response to
  \<^verbatim>\<open>r2\<close> returns \<^verbatim>\<open>True\<close>, but its only frame goes to socket \<open>1\<close>, the worker \<^verbatim>\<open>w1\<close> of job \<^verbatim>\<open>j1\<close>,
  the first job of the loop that has a connected worker: \<^verbatim>\<open>w2\<close> receives nothing, and the
  subscriber of \<^verbatim>\<open>j2\<close> sees no \<^verbatim>\<open>APPROVAL_GRANTED\<close>. The response to \<^verbatim>\<open>r3\<close> goes the same way. A
  response to \<^verbatim>\<open>r9\<close>, which no worker ever asked, returns \<^verbatim>\<open>True\<close> as well and is sent to
  \<^verbatim>\<open>w1\<close>. The loop \<^verbatim>\<open># Find which job/VM this request belongs to\<close> never compares the
  \<^verbatim>\<open>request_id\<close> with anything.
\<close>

theorem submit_response_misrouted:
  "connections run_asked = [(''w1'', 0), (''w2'', 1)]
   \<and> websocket (conn_store run_asked 0) = 1 \<and> websocket (conn_store run_asked 1) = 2
   \<and> map_option vm_id (map_of (jobs run_asked) ''j1'') = Some (Some ''w1'')
   \<and> map_option vm_id (map_of (jobs run_asked) ''j2'') = Some (Some ''w2'')
   \<and> event_subscribers run_asked = [(''j2'', [8])]
   \<and> (8, JObj [(''type'', JStr ''event''),
                (''event'', Event_dict (create_event NEEDS_APPROVAL ''j2''
                   [(''request_id'', JStr ''r2''), (''tool_name'', JStr ''shell'')] 340))])
       \<in> set (sent run_asked)
   \<and> fst (submit_approval_response ''r2'' True (Some ''ok'') 600 run_asked) = Inr True
   \<and> sent (snd (submit_approval_response ''r2'' True (Some ''ok'') 600 run_asked)) =
       sent run_asked @
         [(1, JObj [(''type'', JStr ''approval_response''), (''request_id'', JStr ''r2''),
                    (''approved'', JBool True), (''reason'', JStr ''ok'')])]
   \<and> fst (submit_context_response ''r3'' ''the old one'' None 600 run_asked) = Inr True
   \<and> sent (snd (submit_context_response ''r3'' ''the old one'' None 600 run_asked)) =
       sent run_asked @
         [(1, JObj [(''type'', JStr ''context_response''), (''request_id'', JStr ''r3''),
                    (''response'', JStr ''the old one''), (''attachments'', JList [])])]
   \<and> fst (submit_approval_response ''r9'' True None 600 run_asked) = Inr True
   \<and> sent (snd (submit_approval_response ''r9'' True None 600 run_asked)) =
       sent run_asked @
         [(1, JObj [(''type'', JStr ''approval_response''), (''request_id'', JStr ''r9''),
                    (''approved'', JBool True), (''reason'', JNull)])]"
  by code_simp

end
